theory Spec2Isabelle
  imports Main "HOL-Library.Sublist"
begin

section \<open>The AWS persistent-disk volume plugin\<close>

text \<open>
  A shallow embedding of the path mapper (\<open>makeGlobalPDName\<close>,
  \<open>getPdNameFromGlobalMount\<close>) and of the orchestrator (\<open>SetUpAt\<close>,
  \<open>TearDownAt\<close>, \<open>detachDiskLogError\<close>). Strings are byte lists. The Go standard
  library functions the plugin calls (\<open>strings.Replace\<close>, \<open>strings.Contains\<close>,
  \<open>strings.HasPrefix\<close>, \<open>path.Clean\<close>, \<open>path.Join\<close>, \<open>filepath.Rel\<close> on a
  Unix host) are written out from their documented behaviour. The operating system, the
  mount table and the disk manager are operations over an abstract world, passed to the
  orchestrator in a record; every call made to them is appended to a call log.
\<close>

subsection \<open>Errors\<close>

text \<open>
  A Go \<open>error\<close> value; \<open>nil\<close> is \<open>None\<close> of \<open>error option\<close>. \<open>os.IsNotExist\<close> is the
  only classification the plugin makes.
\<close>

datatype error = NotExist string | OtherError string

fun IsNotExist :: "error \<Rightarrow> bool" where
  "IsNotExist (NotExist m) = True"
| "IsNotExist (OtherError m) = False"

subsection \<open>Package strings\<close>

definition strings_HasPrefix :: "string \<Rightarrow> string \<Rightarrow> bool" where
  "strings_HasPrefix s pre = prefix pre s"

fun strings_Contains :: "string \<Rightarrow> string \<Rightarrow> bool" where
  "strings_Contains [] sub = (sub = [])"
| "strings_Contains (c # cs) sub = (prefix sub (c # cs) \<or> strings_Contains cs sub)"

text \<open>
  \<open>strings.Replace(s, old, new, n)\<close> for a non-empty \<open>old\<close> (the plugin only passes
  the literals \<open>://\<close> and \<open>aws/\<close>): the first \<open>n\<close> non-overlapping occurrences, from
  the left, are replaced; a negative \<open>n\<close> puts no limit. With an empty \<open>old\<close> the
  model returns \<open>s\<close>.
\<close>

function strings_Replace :: "string \<Rightarrow> string \<Rightarrow> string \<Rightarrow> int \<Rightarrow> string" where
  "strings_Replace [] old new n = []"
| "strings_Replace (c # cs) old new n =
     (if n \<noteq> 0 \<and> old \<noteq> [] \<and> prefix old (c # cs)
      then new @ strings_Replace (drop (length old) (c # cs)) old new (n - 1)
      else c # strings_Replace cs old new n)"
  by pat_completeness auto
termination
  by (relation "measure (\<lambda>(s, old, new, n). length s)") auto

subsection \<open>Package path\<close>

fun splitSlash :: "string \<Rightarrow> string list" where
  "splitSlash [] = [[]]"
| "splitSlash (c # cs) =
     (if c = CHR ''/'' then [] # splitSlash cs
      else (case splitSlash cs of [] \<Rightarrow> [[c]] | seg # segs \<Rightarrow> (c # seg) # segs))"

fun joinSlash :: "string list \<Rightarrow> string" where
  "joinSlash [] = []"
| "joinSlash [seg] = seg"
| "joinSlash (seg # segs) = seg @ CHR ''/'' # joinSlash segs"

text \<open>
  \<open>path.Clean\<close>, element by element: empty and \<open>.\<close> elements are dropped, an inner
  \<open>..\<close> removes the element before it, a \<open>..\<close> at the start of a rooted path is
  dropped and one at the start of a relative path is kept. \<open>cleanStep\<close> is one step of
  that pass over the elements kept so far.
\<close>

definition cleanStep :: "bool \<Rightarrow> string list \<Rightarrow> string \<Rightarrow> string list" where
  "cleanStep rooted acc seg =
     (if seg = [] \<or> seg = ''.'' then acc
      else if seg = ''..'' then
        (if acc \<noteq> [] \<and> last acc \<noteq> ''..'' then butlast acc
         else if rooted then acc
         else acc @ [''..''])
      else acc @ [seg])"

definition isRooted :: "string \<Rightarrow> bool" where
  "isRooted p = (case p of [] \<Rightarrow> False | c # cs \<Rightarrow> c = CHR ''/'')"

definition renderPath :: "bool \<Rightarrow> string list \<Rightarrow> string" where
  "renderPath rooted segs =
     (if rooted then CHR ''/'' # joinSlash segs
      else if segs = [] then ''.'' else joinSlash segs)"

definition path_Clean :: "string \<Rightarrow> string" where
  "path_Clean p =
     (if p = [] then ''.''
      else renderPath (isRooted p) (foldl (cleanStep (isRooted p)) [] (splitSlash p)))"

text \<open>
  \<open>path.Join\<close>: leading empty elements are ignored, the rest is joined with slashes and
  cleaned; when every element is empty the result is the empty string.
\<close>

definition path_Join :: "string list \<Rightarrow> string" where
  "path_Join elems =
     (case dropWhile (\<lambda>e. e = []) elems of
        [] \<Rightarrow> []
      | e # es \<Rightarrow> path_Clean (joinSlash (e # es)))"

subsection \<open>filepath.Rel on a Unix host\<close>

text \<open>
  The loop of \<open>filepath.Rel\<close> that walks both cleaned paths element by element. The
  arguments are \<open>base[bi:]\<close> and \<open>targ[ti:]\<close>; the result is
  \<open>(base[b0:bi], base[b0:], targ[t0:])\<close> at the exit of the loop.
\<close>

function relLoop :: "string \<Rightarrow> string \<Rightarrow> string \<times> string \<times> string" where
  "relLoop b t =
     (if b = [] \<or> t = [] then ([], b, t)
      else
        let bc = takeWhile (\<lambda>c. c \<noteq> CHR ''/'') b;
            tc = takeWhile (\<lambda>c. c \<noteq> CHR ''/'') t
        in if tc \<noteq> bc then (bc, b, t)
           else relLoop (drop (Suc (length bc)) b) (drop (Suc (length tc)) t))"
  by pat_completeness auto
termination
  by (relation "measure (\<lambda>(b, t). length b)") auto

declare relLoop.simps [simp del]

definition relError :: "string \<Rightarrow> string \<Rightarrow> error" where
  "relError basepath targpath =
     OtherError (''Rel: can't make '' @ targpath @ '' relative to '' @ basepath)"

definition filepath_Rel :: "string \<Rightarrow> string \<Rightarrow> error + string" where
  "filepath_Rel basepath targpath =
     (let base = path_Clean basepath;
          targ = path_Clean targpath
      in if targ = base then Inr ''.''
         else
           let base = (if base = ''.'' then [] else base);
               baseSlashed = isRooted base;
               targSlashed = isRooted targ
           in if baseSlashed \<noteq> targSlashed then Inl (relError basepath targpath)
              else (case relLoop base targ of
                      (bcur, brest, trest) \<Rightarrow>
                        if bcur = ''..'' then Inl (relError basepath targpath)
                        else if brest \<noteq> [] then
                          Inr (''..''
                               @ concat (replicate (count_list brest CHR ''/'') ''/..'')
                               @ (if trest \<noteq> [] then CHR ''/'' # trest else []))
                        else Inr trest))"

subsection \<open>The path mapper\<close>

definition awsPersistentDiskPluginName :: string where
  "awsPersistentDiskPluginName = ''kubernetes.io/aws-pd''"

text \<open>
  \<open>makeGlobalPDName(host, devName)\<close>. The volume host is outside the plugin: the model
  takes the directory \<open>host.GetPluginDir(awsPersistentDiskPluginName)\<close> as the argument
  \<open>pluginDir\<close>.
\<close>

definition makeGlobalPDName :: "string \<Rightarrow> string \<Rightarrow> string" where
  "makeGlobalPDName pluginDir devName =
     (let name = strings_Replace devName ''://'' ''/'' (- 1)
      in path_Join [pluginDir, ''mounts'', name])"

text \<open>
  \<open>getPdNameFromGlobalMount(host, globalPath)\<close>. The source calls
  \<open>strings.Replace(name, "aws/", "aws://")\<close> without the count that the function
  takes as its fourth argument; the model takes that count as the argument \<open>count\<close>.
\<close>

definition getPdNameFromGlobalMount :: "int \<Rightarrow> string \<Rightarrow> string \<Rightarrow> error + string" where
  "getPdNameFromGlobalMount count pluginDir globalPath =
     (let basePath = path_Join [pluginDir, ''mounts'']
      in case filepath_Rel basePath globalPath of
           Inl err \<Rightarrow> Inl err
         | Inr rel \<Rightarrow>
             if strings_Contains rel ''../''
             then Inl (OtherError (''Unexpected mount path: '' @ globalPath))
             else
               let name = rel;
                   name = (if strings_HasPrefix name ''aws/''
                           then strings_Replace name ''aws/'' ''aws://'' count
                           else name)
               in Inr name)"

text \<open>
  The shape of the paths for which the two mappings are inverse: a relative path in clean
  form is a sequence of elements separated by single slashes, none of them empty, \<open>.\<close>
  or \<open>..\<close>. \<open>goodSeg\<close> is such an element; \<open>keptSeg\<close> is an element that
  \<open>path.Clean\<close> may leave in its result.
\<close>

definition goodSeg :: "string \<Rightarrow> bool" where
  "goodSeg seg = (seg \<noteq> [] \<and> seg \<noteq> ''.'' \<and> seg \<noteq> ''..'' \<and> CHR ''/'' \<notin> set seg)"

definition keptSeg :: "string \<Rightarrow> bool" where
  "keptSeg seg = (seg \<noteq> [] \<and> seg \<noteq> ''.'' \<and> CHR ''/'' \<notin> set seg)"

definition cleanRelative :: "string \<Rightarrow> bool" where
  "cleanRelative n = list_all (\<lambda>seg. seg \<noteq> [] \<and> seg \<noteq> ''.'' \<and> seg \<noteq> ''..'') (splitSlash n)"

subsection \<open>The volume, the host and the call log\<close>

text \<open>
  The fields of \<open>awsPersistentDisk\<close> that hold data. The fields \<open>manager\<close>,
  \<open>mounter\<close>, \<open>diskMounter\<close> and \<open>plugin\<close> are interfaces to the outside; their
  operations are the fields of \<open>sys\<close> below.
\<close>

record awsPersistentDisk =
  volName :: string
  podUID :: string
  pdName :: string
  fsType :: string
  partition :: string
  readOnly :: bool

text \<open>The flag word of \<open>Mount\<close> is the set of the flags that are or-ed into it.\<close>

datatype mountFlag = FlagBind | FlagReadOnly

text \<open>
  The operations the plugin calls and does not define: \<open>mount.IsMountPoint\<close>,
  \<open>mount.GetMountRefs\<close>, the mounter's \<open>Mount\<close> and \<open>Unmount\<close>, \<open>os.MkdirAll\<close>,
  \<open>os.Remove\<close>, the disk manager's \<open>AttachAndMountDisk\<close> and \<open>DetachDisk\<close>, and
  the volume host's \<open>GetPluginDir\<close>. Each one reads and changes a world of type
  \<open>'w\<close> and gives back what the Go function returns.
\<close>

record 'w sys =
  IsMountPoint :: "string \<Rightarrow> 'w \<Rightarrow> (bool \<times> error option) \<times> 'w"
  GetMountRefs :: "string \<Rightarrow> 'w \<Rightarrow> (string list \<times> error option) \<times> 'w"
  Mount :: "string \<Rightarrow> string \<Rightarrow> string \<Rightarrow> mountFlag set \<Rightarrow> string \<Rightarrow> 'w \<Rightarrow> error option \<times> 'w"
  Unmount :: "string \<Rightarrow> nat \<Rightarrow> 'w \<Rightarrow> error option \<times> 'w"
  MkdirAll :: "string \<Rightarrow> nat \<Rightarrow> 'w \<Rightarrow> error option \<times> 'w"
  Remove :: "string \<Rightarrow> 'w \<Rightarrow> error option \<times> 'w"
  AttachAndMountDisk :: "awsPersistentDisk \<Rightarrow> string \<Rightarrow> 'w \<Rightarrow> error option \<times> 'w"
  DetachDisk :: "awsPersistentDisk \<Rightarrow> 'w \<Rightarrow> error option \<times> 'w"
  GetPluginDir :: "string \<Rightarrow> string"

datatype call =
    CallIsMountPoint string
  | CallGetMountRefs string
  | CallMount string string string "mountFlag set" string
  | CallUnmount string nat
  | CallMkdirAll string nat
  | CallRemove string
  | CallAttachAndMountDisk awsPersistentDisk string
  | CallDetachDisk awsPersistentDisk

text \<open>A call of the logger: its level, its format or first text, and its arguments.\<close>

datatype logarg = S string | B bool | E "error option" | PD awsPersistentDisk

datatype logcall =
    VInfof nat string "logarg list"
  | VInfo nat "logarg list"
  | Warningf string "logarg list"
  | Errorf string "logarg list"

record 'w state =
  world :: 'w
  calls :: "call list"
  logs :: "logcall list"

definition start :: "'w \<Rightarrow> 'w state" where
  "start w = \<lparr>world = w, calls = [], logs = []\<rparr>"

definition glog :: "logcall \<Rightarrow> 'w state \<Rightarrow> 'w state" where
  "glog l s = s\<lparr>logs := logs s @ [l]\<rparr>"

definition perform :: "call \<Rightarrow> ('w \<Rightarrow> 'r \<times> 'w) \<Rightarrow> 'w state \<Rightarrow> 'r \<times> 'w state" where
  "perform c f s =
     (case f (world s) of (r, w') \<Rightarrow> (r, s\<lparr>world := w', calls := calls s @ [c]\<rparr>))"

definition isDetachDisk :: "call \<Rightarrow> bool" where
  "isDetachDisk c = (case c of CallDetachDisk p \<Rightarrow> True | _ \<Rightarrow> False)"

definition isDiskManagerCall :: "call \<Rightarrow> bool" where
  "isDiskManagerCall c =
     (case c of CallDetachDisk p \<Rightarrow> True | CallAttachAndMountDisk p g \<Rightarrow> True | _ \<Rightarrow> False)"

definition isMountSyscall :: "call \<Rightarrow> bool" where
  "isMountSyscall c =
     (case c of CallMount src tgt fs fl opts \<Rightarrow> True | CallUnmount tgt fl \<Rightarrow> True | _ \<Rightarrow> False)"

definition isRemove :: "call \<Rightarrow> bool" where
  "isRemove c = (case c of CallRemove d \<Rightarrow> True | _ \<Rightarrow> False)"

subsection \<open>The orchestrator\<close>

definition detachDiskLogError :: "'w sys \<Rightarrow> awsPersistentDisk \<Rightarrow> 'w state \<Rightarrow> 'w state" where
  "detachDiskLogError sys pd s =
     (case perform (CallDetachDisk pd) (DetachDisk sys pd) s of
        (err, s1) \<Rightarrow>
          if err \<noteq> None
          then glog (Warningf ''Failed to detach disk: %v (%v)'' [PD pd, E err]) s1
          else s1)"

text \<open>The test \<open>err != nil && !os.IsNotExist(err)\<close> of \<open>SetUpAt\<close>.\<close>

definition otherThanNotExist :: "error option \<Rightarrow> bool" where
  "otherThanNotExist err = (case err of None \<Rightarrow> False | Some e \<Rightarrow> \<not> IsNotExist e)"

text \<open>
  The branch of \<open>SetUpAt\<close> taken when the bind mount has failed with \<open>err\<close> (from
  the \<open>mount.IsMountPoint(dir)\<close> after the failed mount to the \<open>return err\<close> that ends
  the branch). The result of \<open>os.Remove(dir)\<close> is dropped, as in the source.
\<close>

definition bindMountFailed :: "'w sys \<Rightarrow> awsPersistentDisk \<Rightarrow> string \<Rightarrow> error option \<Rightarrow> 'w state \<Rightarrow> error option \<times> 'w state" where
  "bindMountFailed sys pd dir err s4 =
     (case perform (CallIsMountPoint dir) (IsMountPoint sys dir) s4 of
        ((mountpoint, mntErr), s5) \<Rightarrow>
        if mntErr \<noteq> None
        then (err, glog (Errorf ''isMountpoint check failed: %v'' [E mntErr]) s5)
        else if mountpoint then
          (case perform (CallUnmount dir 0) (Unmount sys dir 0) s5 of
             (mntErr, s6) \<Rightarrow>
             if mntErr \<noteq> None
             then (err, glog (Errorf ''Failed to unmount: %v'' [E mntErr]) s6)
             else
               (case perform (CallIsMountPoint dir) (IsMountPoint sys dir) s6 of
                  ((mountpoint, mntErr), s7) \<Rightarrow>
                  if mntErr \<noteq> None
                  then (err, glog (Errorf ''isMountpoint check failed: %v'' [E mntErr]) s7)
                  else if mountpoint
                  then (err, glog (Errorf ''%s is still mounted, despite call to unmount().  Will try again next sync loop.'' [S dir]) s7)
                  else
                    (case perform (CallRemove dir) (Remove sys dir) s7 of
                       (rerr, s8) \<Rightarrow> (err, detachDiskLogError sys pd s8))))
        else
          (case perform (CallRemove dir) (Remove sys dir) s5 of
             (rerr, s8) \<Rightarrow> (err, detachDiskLogError sys pd s8)))"

text \<open>
  \<open>SetUpAt(dir)\<close>. The mode \<open>0750\<close> of \<open>os.MkdirAll\<close> is 488. The result is the
  returned error and the state after the call.
\<close>

definition SetUpAt :: "'w sys \<Rightarrow> awsPersistentDisk \<Rightarrow> string \<Rightarrow> 'w state \<Rightarrow> error option \<times> 'w state" where
  "SetUpAt sys pd dir s0 =
     (case perform (CallIsMountPoint dir) (IsMountPoint sys dir) s0 of
        ((mountpoint, err), s1) \<Rightarrow>
        let s1 = glog (VInfof 4 ''PersistentDisk set up: %s %v %v'' [S dir, B mountpoint, E err]) s1
        in
        if otherThanNotExist err then (err, s1)
        else if mountpoint then (None, s1)
        else
          let globalPDPath = makeGlobalPDName (GetPluginDir sys awsPersistentDiskPluginName) (pdName pd)
          in
          case perform (CallAttachAndMountDisk pd globalPDPath)
                 (AttachAndMountDisk sys pd globalPDPath) s1 of
            (aerr, s2) \<Rightarrow>
            if aerr \<noteq> None then (aerr, s2)
            else
              let flags = (if readOnly pd then {FlagReadOnly} else {})
              in
              case perform (CallMkdirAll dir 488) (MkdirAll sys dir 488) s2 of
                (derr, s3) \<Rightarrow>
                if derr \<noteq> None then (derr, detachDiskLogError sys pd s3)
                else
                  case perform (CallMount globalPDPath dir [] ({FlagBind} \<union> flags) [])
                         (Mount sys globalPDPath dir [] ({FlagBind} \<union> flags) []) s3 of
                    (err, s4) \<Rightarrow>
                    if err \<noteq> None then bindMountFailed sys pd dir err s4
                    else (None, s4))"

text \<open>
  The end of \<open>TearDownAt\<close> (from the second \<open>mount.IsMountPoint(dir)\<close> to the final
  \<open>return nil\<close>). The argument \<open>err\<close> is the value of the function's variable \<open>err\<close>
  at that point, which the branch for a failed check returns.
\<close>

definition tearDownRecheck :: "'w sys \<Rightarrow> awsPersistentDisk \<Rightarrow> string \<Rightarrow> error option \<Rightarrow> 'w state \<Rightarrow> error option \<times> awsPersistentDisk \<times> 'w state" where
  "tearDownRecheck sys pd dir err s =
     (case perform (CallIsMountPoint dir) (IsMountPoint sys dir) s of
        ((mountpoint, mntErr), s1) \<Rightarrow>
        if mntErr \<noteq> None
        then (err, pd, glog (Errorf ''isMountpoint check failed: %v'' [E mntErr]) s1)
        else if \<not> mountpoint then
          (case perform (CallRemove dir) (Remove sys dir) s1 of
             (rerr, s2) \<Rightarrow>
             if rerr \<noteq> None
             then (rerr, pd, glog (VInfo 2 [S ''Error removing mountpoint '', S dir, S '': '', E rerr]) s2)
             else (None, pd, s2))
        else (None, pd, s1))"

text \<open>
  \<open>TearDownAt(dir)\<close>. The receiver is a pointer and the function assigns its field
  \<open>pdName\<close>, so the volume is part of the result. The source calls
  \<open>getPdNameFromGlobalMount(refs[0])\<close> without the host; the model passes the plugin's
  host, as \<open>SetUpAt\<close> does for \<open>makeGlobalPDName\<close>. \<open>count\<close> is the count argument
  of \<open>getPdNameFromGlobalMount\<close>.
\<close>

definition TearDownAt :: "int \<Rightarrow> 'w sys \<Rightarrow> awsPersistentDisk \<Rightarrow> string \<Rightarrow> 'w state \<Rightarrow> error option \<times> awsPersistentDisk \<times> 'w state" where
  "TearDownAt count sys pd dir s0 =
     (case perform (CallIsMountPoint dir) (IsMountPoint sys dir) s0 of
        ((mountpoint, err), s1) \<Rightarrow>
        if err \<noteq> None
        then (err, pd, glog (VInfo 2 [S ''Error checking if mountpoint '', S dir, S '': '', E err]) s1)
        else if \<not> mountpoint then
          (case perform (CallRemove dir) (Remove sys dir)
                  (glog (VInfo 2 [S ''Not mountpoint, deleting'']) s1) of
             (rerr, s2) \<Rightarrow> (rerr, pd, s2))
        else
          case perform (CallGetMountRefs dir) (GetMountRefs sys dir) s1 of
            ((refs, err), s2) \<Rightarrow>
            if err \<noteq> None
            then (err, pd, glog (VInfo 2 [S ''Error getting mountrefs for '', S dir, S '': '', E err]) s2)
            else
              case perform (CallUnmount dir 0) (Unmount sys dir 0) s2 of
                (uerr, s3) \<Rightarrow>
                if uerr \<noteq> None
                then (uerr, pd, glog (VInfo 2 [S ''Error unmounting dir '', S dir, S '': '', E uerr]) s3)
                else if length refs = 1 then
                  (case getPdNameFromGlobalMount count
                          (GetPluginDir sys awsPersistentDiskPluginName) (hd refs) of
                     Inl e \<Rightarrow>
                       (Some e, pd\<lparr>pdName := []\<rparr>,
                        glog (VInfo 2 [S ''Could not determine pdName from mountpoint '', S (hd refs), S '': '', E (Some e)]) s3)
                   | Inr name \<Rightarrow>
                       let pd = pd\<lparr>pdName := name\<rparr>;
                           err = None
                       in
                       case perform (CallDetachDisk pd) (DetachDisk sys pd) s3 of
                         (derr, s4) \<Rightarrow>
                         if derr \<noteq> None
                         then (derr, pd, glog (VInfo 2 [S ''Error detaching disk '', S (pdName pd), S '': '', E derr]) s4)
                         else tearDownRecheck sys pd dir err s4)
                else tearDownRecheck sys pd dir err s3)"

subsection \<open>A scripted host\<close>

text \<open>
  A host whose operations answer from a script, one response for each call, in order:
  the world is the rest of the script. A call that finds no response of its kind fails
  with the error \<open>unscripted\<close>.
\<close>

datatype response =
    RMount bool "error option"
  | RRefs "string list" "error option"
  | RErr "error option"

definition unscripted :: error where
  "unscripted = OtherError ''unscripted''"

definition nextMount :: "response list \<Rightarrow> (bool \<times> error option) \<times> response list" where
  "nextMount w =
     (case w of RMount b e # rest \<Rightarrow> ((b, e), rest) | _ \<Rightarrow> ((False, Some unscripted), []))"

definition nextRefs :: "response list \<Rightarrow> (string list \<times> error option) \<times> response list" where
  "nextRefs w =
     (case w of RRefs rs e # rest \<Rightarrow> ((rs, e), rest) | _ \<Rightarrow> (([], Some unscripted), []))"

definition nextErr :: "response list \<Rightarrow> error option \<times> response list" where
  "nextErr w = (case w of RErr e # rest \<Rightarrow> (e, rest) | _ \<Rightarrow> (Some unscripted, []))"

definition scripted :: "string \<Rightarrow> response list sys" where
  "scripted pluginDir =
     \<lparr>IsMountPoint = (\<lambda>dir. nextMount),
      GetMountRefs = (\<lambda>dir. nextRefs),
      Mount = (\<lambda>src tgt fs fl opts. nextErr),
      Unmount = (\<lambda>tgt fl. nextErr),
      MkdirAll = (\<lambda>dir mode. nextErr),
      Remove = (\<lambda>dir. nextErr),
      AttachAndMountDisk = (\<lambda>pd g. nextErr),
      DetachDisk = (\<lambda>pd. nextErr),
      GetPluginDir = (\<lambda>name. pluginDir)\<rparr>"

text \<open>A volume as \<open>newCleanerInternal\<close> builds it: no disk identifier.\<close>

definition cleaner :: awsPersistentDisk where
  "cleaner =
     \<lparr>volName = ''vol1'', podUID = ''pod1'', pdName = [], fsType = [],
      partition = [], readOnly = False\<rparr>"

text \<open>A volume as \<open>newBuilderInternal\<close> builds it.\<close>

definition builder :: awsPersistentDisk where
  "builder =
     \<lparr>volName = ''vol1'', podUID = ''pod1'', pdName = ''aws://us-east-1a/vol-1'',
      fsType = ''ext4'', partition = [], readOnly = False\<rparr>"

text \<open>Scripts: the answers of the host along one run of \<open>TearDownAt\<close> or \<open>SetUpAt\<close>.\<close>

definition lastRefScript :: "response list" where
  "lastRefScript =
     [RMount True None, RRefs [''/p/mounts/aws/us-east-1a/vol-1''] None, RErr None,
      RErr None, RMount False None, RErr None]"

definition sharedScript :: "response list" where
  "sharedScript =
     [RMount True None, RRefs [''/p/mounts/aws/us-east-1a/vol-1'', ''/pods/other''] None,
      RErr None, RMount False None, RErr None]"

definition foreignRefScript :: "response list" where
  "foreignRefScript = [RMount True None, RRefs [''/mnt/data''] None, RErr None]"

definition busyScript :: "response list" where
  "busyScript =
     [RMount True None, RRefs [''/p/mounts/aws/us-east-1a/vol-1''] None,
      RErr (Some (OtherError ''device is busy''))]"

definition recheckFailScript :: "response list" where
  "recheckFailScript =
     [RMount True None, RRefs [''/p/mounts/aws/us-east-1a/vol-1'', ''/pods/other''] None,
      RErr None, RMount False (Some (OtherError ''input/output error''))]"

definition mkdirFailScript :: "response list" where
  "mkdirFailScript =
     [RMount False (Some (NotExist ''/pods/v'')), RErr None,
      RErr (Some (OtherError ''permission denied'')),
      RErr (Some (OtherError ''detach failed''))]"

definition mountedScript :: "response list" where
  "mountedScript = [RMount True None]"

definition freshScript :: "response list" where
  "freshScript = [RMount False (Some (NotExist ''/pods/v'')), RErr None, RErr None, RErr None]"

definition rollbackScript :: "response list" where
  "rollbackScript =
     [RMount False None, RErr None, RErr None, RErr (Some (OtherError ''mount failed'')),
      RMount True None, RErr None, RMount False None, RErr None, RErr None]"

definition stubbornScript :: "response list" where
  "stubbornScript =
     [RMount False None, RErr None, RErr None, RErr (Some (OtherError ''mount failed'')),
      RMount True None, RErr None, RMount True None]"

definition unmountFailScript :: "response list" where
  "unmountFailScript =
     [RMount False None, RErr None, RErr None, RErr (Some (OtherError ''mount failed'')),
      RMount True None, RErr (Some (OtherError ''device is busy''))]"

text \<open>The global mount path of the volume \<open>builder\<close> on the scripted host.\<close>

definition globalPath :: string where
  "globalPath = makeGlobalPDName (GetPluginDir (scripted ''/p'') awsPersistentDiskPluginName) (pdName builder)"

section \<open>Properties\<close>

lemmas script_simps =
  scripted_def nextMount_def nextRefs_def nextErr_def start_def perform_def glog_def

subsection \<open>Splitting and joining at slashes\<close>

lemma splitSlash_nonempty [simp]: "splitSlash s \<noteq> []"
  by (induction s) (auto split: list.splits)

lemma splitSlash_append: "splitSlash (a @ CHR ''/'' # b) = splitSlash a @ splitSlash b"
  by (induction a) (auto split: list.splits)

lemma splitSlash_noslash: "seg \<in> set (splitSlash s) \<Longrightarrow> CHR ''/'' \<notin> set seg"
  by (induction s arbitrary: seg) (auto split: list.splits if_splits)

lemma splitSlash_single: "CHR ''/'' \<notin> set seg \<Longrightarrow> splitSlash seg = [seg]"
  by (induction seg) (auto split: list.splits)

lemma joinSlash_splitSlash: "joinSlash (splitSlash s) = s"
proof (induction s)
  case Nil
  then show ?case by simp
next
  case (Cons c cs)
  show ?case
  proof (cases "c = CHR ''/''")
    case True
    obtain x xs where "splitSlash cs = x # xs"
      by (cases "splitSlash cs") auto
    with True Cons show ?thesis by simp
  next
    case False
    obtain x xs where sp: "splitSlash cs = x # xs"
      by (cases "splitSlash cs") auto
    with Cons have "joinSlash (x # xs) = cs" by simp
    then have "joinSlash ((c # x) # xs) = c # cs"
      by (cases xs) auto
    with False sp show ?thesis by simp
  qed
qed

lemma joinSlash_append:
  "xs \<noteq> [] \<Longrightarrow> ys \<noteq> [] \<Longrightarrow> joinSlash (xs @ ys) = joinSlash xs @ CHR ''/'' # joinSlash ys"
proof (induction xs rule: joinSlash.induct)
  case 1
  then show ?case by simp
next
  case (2 seg)
  then show ?case by (cases ys) auto
next
  case (3 seg v va)
  then show ?case by simp
qed

lemma splitSlash_joinSlash:
  "gs \<noteq> [] \<Longrightarrow> \<forall>g\<in>set gs. CHR ''/'' \<notin> set g \<Longrightarrow> splitSlash (joinSlash gs) = gs"
proof (induction gs rule: joinSlash.induct)
  case 1
  then show ?case by simp
next
  case (2 seg)
  then show ?case by (simp add: splitSlash_single)
next
  case (3 seg v va)
  then show ?case by (simp add: splitSlash_append splitSlash_single)
qed

lemma joinSlash_last:
  "xs \<noteq> [] \<Longrightarrow> \<forall>s\<in>set xs. s \<noteq> [] \<Longrightarrow>
     joinSlash xs \<noteq> [] \<and> last (joinSlash xs) = last (last xs)"
  by (induction xs rule: joinSlash.induct) auto

lemma joinSlash_hd:
  "xs \<noteq> [] \<Longrightarrow> hd xs \<noteq> [] \<Longrightarrow> hd (joinSlash xs) = hd (hd xs)"
  by (induction xs rule: joinSlash.induct) auto

lemma joinSlash_snoc_ne: "m \<noteq> [] \<Longrightarrow> joinSlash (xs @ [m]) \<noteq> []"
  by (cases "xs = []") (simp_all add: joinSlash_append)

subsection \<open>path.Clean\<close>

lemma goodSeg_noslash: "goodSeg g \<Longrightarrow> CHR ''/'' \<notin> set g"
  by (simp add: goodSeg_def)

lemma goodSeg_kept: "goodSeg g \<Longrightarrow> keptSeg g"
  by (simp add: goodSeg_def keptSeg_def)

lemma goodSeg_mounts: "goodSeg ''mounts''"
  by (simp add: goodSeg_def)

lemma cleanStep_good: "goodSeg g \<Longrightarrow> cleanStep r acc g = acc @ [g]"
  by (simp add: cleanStep_def goodSeg_def)

lemma foldl_cleanStep_good:
  "\<forall>g\<in>set gs. goodSeg g \<Longrightarrow> foldl (cleanStep r) acc gs = acc @ gs"
  by (induction gs arbitrary: acc) (simp_all add: cleanStep_good)

lemma cleanStep_kept:
  assumes "\<forall>s\<in>set acc. keptSeg s" and "CHR ''/'' \<notin> set seg"
  shows "\<forall>s\<in>set (cleanStep r acc seg). keptSeg s"
  using assms
  by (auto simp: cleanStep_def keptSeg_def dest: in_set_butlastD)

lemma foldl_cleanStep_kept:
  "\<forall>s\<in>set acc. keptSeg s \<Longrightarrow> \<forall>s\<in>set segs. CHR ''/'' \<notin> set s \<Longrightarrow>
     \<forall>s\<in>set (foldl (cleanStep r) acc segs). keptSeg s"
proof (induction segs arbitrary: acc)
  case Nil
  then show ?case by simp
next
  case (Cons a segs)
  have "\<forall>s\<in>set (cleanStep r acc a). keptSeg s"
    using Cons.prems by (intro cleanStep_kept) auto
  with Cons show ?case by simp
qed

lemma cleaned_kept: "\<forall>s\<in>set (foldl (cleanStep r) [] (splitSlash q)). keptSeg s"
  by (rule foldl_cleanStep_kept) (auto dest: splitSlash_noslash)

lemma joinSlash_kept_last:
  assumes "xs \<noteq> []" and "\<forall>s\<in>set xs. keptSeg s"
  shows "joinSlash xs \<noteq> []" and "last (joinSlash xs) \<noteq> CHR ''/''"
proof -
  have ne: "\<forall>s\<in>set xs. s \<noteq> []"
    using assms(2) by (simp add: keptSeg_def)
  from joinSlash_last [OF assms(1) ne]
  show "joinSlash xs \<noteq> []" by simp
  have "last xs \<in> set xs" using assms(1) by simp
  then have k: "keptSeg (last xs)" using assms(2) by blast
  then have "last (last xs) \<noteq> CHR ''/''"
    by (metis keptSeg_def last_in_set)
  with joinSlash_last [OF assms(1) ne]
  show "last (joinSlash xs) \<noteq> CHR ''/''" by simp
qed

lemma joinSlash_kept_not_dot:
  assumes "xs \<noteq> []" and "\<forall>s\<in>set xs. keptSeg s"
  shows "joinSlash xs \<noteq> ''.''"
proof (cases xs)
  case Nil
  with assms show ?thesis by simp
next
  case (Cons x rest)
  show ?thesis
  proof (cases rest)
    case Nil
    with Cons assms show ?thesis by (simp add: keptSeg_def)
  next
    case (Cons y zs)
    with \<open>xs = x # rest\<close> have "CHR ''/'' \<in> set (joinSlash xs)" by simp
    then show ?thesis by auto
  qed
qed

lemma joinSlash_good_not_rooted:
  assumes "gs \<noteq> []" and "\<forall>g\<in>set gs. goodSeg g"
  shows "\<not> isRooted (joinSlash gs)"
proof -
  have g: "goodSeg (hd gs)" using assms by simp
  then have ne: "hd gs \<noteq> []" by (simp add: goodSeg_def)
  have "hd (hd gs) \<in> set (hd gs)" using ne by simp
  with g have "hd (hd gs) \<noteq> CHR ''/''"
    by (metis goodSeg_def)
  then have h: "hd (joinSlash gs) \<noteq> CHR ''/''"
    using joinSlash_hd [OF assms(1) ne] by simp
  show ?thesis
    using h by (cases "joinSlash gs") (simp_all add: isRooted_def)
qed

lemma isRooted_append: "q \<noteq> [] \<Longrightarrow> isRooted (q @ x) = isRooted q"
  by (cases q) (simp_all add: isRooted_def)

lemma path_Clean_append:
  assumes "q \<noteq> []" and "gs \<noteq> []" and "\<forall>g\<in>set gs. goodSeg g"
  shows "path_Clean (q @ CHR ''/'' # joinSlash gs) =
           renderPath (isRooted q) (foldl (cleanStep (isRooted q)) [] (splitSlash q) @ gs)"
proof -
  have sp: "splitSlash (joinSlash gs) = gs"
    using assms by (intro splitSlash_joinSlash) (auto dest: goodSeg_noslash)
  show ?thesis
    using assms
    by (simp add: path_Clean_def isRooted_append splitSlash_append sp foldl_cleanStep_good)
qed

lemma renderPath_append:
  "ys \<noteq> [] \<Longrightarrow> gs \<noteq> [] \<Longrightarrow>
     renderPath r (ys @ gs) = renderPath r ys @ CHR ''/'' # joinSlash gs"
  by (cases r) (simp_all add: renderPath_def joinSlash_append)

lemma renderPath_snoc_ne: "m \<noteq> [] \<Longrightarrow> renderPath r (xs @ [m]) \<noteq> []"
  by (cases r) (simp_all add: renderPath_def joinSlash_snoc_ne)

lemma path_Clean_shape:
  "path_Clean p \<noteq> [] \<and> (last (path_Clean p) = CHR ''/'' \<longrightarrow> path_Clean p = ''/'')"
proof (cases "p = []")
  case True
  then show ?thesis by (simp add: path_Clean_def)
next
  case False
  let ?r = "isRooted p"
  let ?Z = "foldl (cleanStep ?r) [] (splitSlash p)"
  have c: "path_Clean p = renderPath ?r ?Z"
    using False by (simp add: path_Clean_def)
  have keptZ: "\<forall>s\<in>set ?Z. keptSeg s"
    by (rule cleaned_kept)
  show ?thesis
  proof (cases "?Z = []")
    case True
    then show ?thesis
      unfolding c by (cases "isRooted p") (simp_all add: renderPath_def)
  next
    case False
    have "joinSlash ?Z \<noteq> []" "last (joinSlash ?Z) \<noteq> CHR ''/''"
      using joinSlash_kept_last [OF False keptZ] by auto
    then show ?thesis
      unfolding c using False by (cases "isRooted p") (simp_all add: renderPath_def)
  qed
qed

lemma path_Join_mounts:
  assumes "gs \<noteq> []" and "\<forall>g\<in>set gs. goodSeg g"
  shows "path_Join [pluginDir, ''mounts''] \<noteq> []"
    and "path_Join [pluginDir, ''mounts'', joinSlash gs]
           = path_Join [pluginDir, ''mounts''] @ CHR ''/'' # joinSlash gs"
proof -
  have gs_ne: "joinSlash gs \<noteq> []"
    using joinSlash_kept_last(1) [OF assms(1)] assms(2) goodSeg_kept by blast
  have mg: "\<forall>g\<in>set (''mounts'' # gs). goodSeg g"
    using assms(2) goodSeg_mounts by simp
  have jm: "joinSlash (''mounts'' # gs) = ''mounts'' @ CHR ''/'' # joinSlash gs"
    using assms(1) by (cases gs) simp_all
  have both: "path_Join [pluginDir, ''mounts''] \<noteq> []
      \<and> path_Join [pluginDir, ''mounts'', joinSlash gs]
           = path_Join [pluginDir, ''mounts''] @ CHR ''/'' # joinSlash gs"
  proof (cases "pluginDir = []")
    case True
    have b: "path_Join [pluginDir, ''mounts''] = ''mounts''"
      unfolding True by code_simp
    have "path_Join [pluginDir, ''mounts'', joinSlash gs] = path_Clean (''mounts'' @ CHR ''/'' # joinSlash gs)"
      using True by (simp add: path_Join_def)
    also have "\<dots> = renderPath (isRooted ''mounts'')
                      (foldl (cleanStep (isRooted ''mounts'')) [] (splitSlash ''mounts'') @ gs)"
      using assms by (intro path_Clean_append) simp_all
    also have "\<dots> = joinSlash (''mounts'' # gs)"
      by (simp add: isRooted_def renderPath_def cleanStep_def)
    finally show ?thesis
      using b jm by simp
  next
    case False
    let ?r = "isRooted pluginDir"
    let ?X = "foldl (cleanStep ?r) [] (splitSlash pluginDir)"
    have "path_Join [pluginDir, ''mounts''] = path_Clean (pluginDir @ CHR ''/'' # joinSlash [''mounts''])"
      using False by (simp add: path_Join_def)
    also have "\<dots> = renderPath ?r (?X @ [''mounts''])"
      using False goodSeg_mounts by (intro path_Clean_append) simp_all
    finally have b: "path_Join [pluginDir, ''mounts''] = renderPath ?r (?X @ [''mounts''])" .
    have "path_Join [pluginDir, ''mounts'', joinSlash gs]
            = path_Clean (pluginDir @ CHR ''/'' # joinSlash (''mounts'' # gs))"
      using False assms(1) by (cases gs) (simp_all add: path_Join_def)
    also have "\<dots> = renderPath ?r (?X @ ''mounts'' # gs)"
      using False mg by (intro path_Clean_append) simp_all
    also have "\<dots> = renderPath ?r ((?X @ [''mounts'']) @ gs)"
      by simp
    also have "\<dots> = renderPath ?r (?X @ [''mounts'']) @ CHR ''/'' # joinSlash gs"
      using assms(1) by (intro renderPath_append) simp_all
    finally show ?thesis
      using b renderPath_snoc_ne [of "''mounts''" ?r ?X] by simp
  qed
  from both show "path_Join [pluginDir, ''mounts''] \<noteq> []" by blast
  from both show "path_Join [pluginDir, ''mounts'', joinSlash gs]
           = path_Join [pluginDir, ''mounts''] @ CHR ''/'' # joinSlash gs" by blast
qed

subsection \<open>filepath.Rel\<close>

lemma takeWhile_slash_append:
  "takeWhile (\<lambda>c. c \<noteq> CHR ''/'') (b @ CHR ''/'' # n) = takeWhile (\<lambda>c. c \<noteq> CHR ''/'') b"
  by (induction b) auto

lemma takeWhile_drop_split:
  fixes b :: string
  defines "c \<equiv> takeWhile (\<lambda>x. x \<noteq> CHR ''/'') b"
  shows "(b = c \<and> drop (Suc (length c)) b = [])
         \<or> b = c @ CHR ''/'' # drop (Suc (length c)) b"
proof (cases "c = b")
  case True
  have "drop (Suc (length c)) b = []"
    by (subst True) simp
  with True show ?thesis by simp
next
  case False
  let ?d = "dropWhile (\<lambda>x. x \<noteq> CHR ''/'') b"
  have cd: "b = c @ ?d"
    unfolding c_def by simp
  have dne: "?d \<noteq> []"
  proof
    assume "?d = []"
    with cd have "b = c" by simp
    with False show False by simp
  qed
  then have "\<not> (hd ?d \<noteq> CHR ''/'')"
    by (rule hd_dropWhile)
  with dne have d_eq: "?d = CHR ''/'' # tl ?d"
    by (cases ?d) auto
  have b_eq0: "b = c @ CHR ''/'' # tl ?d"
    using cd d_eq by metis
  have "drop (Suc (length c)) (c @ CHR ''/'' # tl ?d) = tl ?d"
    by simp
  with b_eq0 have "drop (Suc (length c)) b = tl ?d"
    by metis
  with b_eq0 show ?thesis by metis
qed

lemma relLoop_Nil: "relLoop [] t = ([], [], t)"
  by (subst relLoop.simps) simp

lemma relLoop_root: "relLoop ''/'' (CHR ''/'' # n) = ([], [], n)"
  by (subst relLoop.simps) (simp add: relLoop_Nil)

lemma relLoop_extend:
  "b \<noteq> [] \<Longrightarrow> last b \<noteq> CHR ''/'' \<Longrightarrow> relLoop b (b @ CHR ''/'' # n) = ([], [], n)"
proof (induction b rule: length_induct)
  case (1 b)
  let ?c = "takeWhile (\<lambda>c. c \<noteq> CHR ''/'') b"
  let ?b' = "drop (Suc (length ?c)) b"
  have tw: "takeWhile (\<lambda>c. c \<noteq> CHR ''/'') (b @ CHR ''/'' # n) = ?c"
    by (rule takeWhile_slash_append)
  have step: "relLoop b (b @ CHR ''/'' # n) = relLoop ?b' (drop (Suc (length ?c)) (b @ CHR ''/'' # n))"
    using 1(2) by (subst relLoop.simps) (simp add: tw Let_def)
  show ?case
  proof (cases "?c = b")
    case True
    have lc: "length ?c = length b"
      by (rule arg_cong [OF True])
    have "drop (Suc (length ?c)) (b @ CHR ''/'' # n) = n"
      unfolding lc by simp
    moreover have "?b' = []"
      unfolding lc by simp
    ultimately show ?thesis using step by (simp add: relLoop_Nil)
  next
    case False
    let ?d = "dropWhile (\<lambda>c. c \<noteq> CHR ''/'') b"
    have cd: "b = ?c @ ?d"
      by simp
    have dne: "?d \<noteq> []"
    proof
      assume "?d = []"
      with cd have "b = ?c" by simp
      with False show False by simp
    qed
    then have "\<not> (hd ?d \<noteq> CHR ''/'')"
      by (rule hd_dropWhile)
    with dne have d_eq: "?d = CHR ''/'' # tl ?d"
      by (cases ?d) auto
    have b_eq0: "b = ?c @ CHR ''/'' # tl ?d"
      using cd d_eq by metis
    have "drop (Suc (length ?c)) (?c @ CHR ''/'' # tl ?d) = tl ?d"
      by simp
    with b_eq0 have b'_eq: "?b' = tl ?d"
      by metis
    have b_eq: "b = ?c @ CHR ''/'' # ?b'"
      using b_eq0 b'_eq by metis
    have len: "length ?c < length b"
      by (subst (2) b_eq0) simp
    have ne: "?b' \<noteq> []"
    proof
      assume "?b' = []"
      with b_eq have "b = ?c @ [CHR ''/'']" by simp
      then have "last b = CHR ''/''" by (metis last_snoc)
      with 1(3) show False by simp
    qed
    have lst: "last ?b' \<noteq> CHR ''/''"
      using ne 1(3) b_eq by (metis last_appendR last_ConsR list.distinct(1))
    have shorter: "length ?b' < length b"
      using 1(2) by simp
    have tdrop: "drop (Suc (length ?c)) (b @ CHR ''/'' # n) = ?b' @ CHR ''/'' # n"
      using len by simp
    from 1(1) shorter ne lst have "relLoop ?b' (?b' @ CHR ''/'' # n) = ([], [], n)"
      by blast
    with step tdrop show ?thesis by simp
  qed
qed

lemma relLoop_exhausted:
  "relLoop b t = (c, [], []) \<Longrightarrow> b = t \<or> b = t @ ''/'' \<or> t = b @ ''/''"
proof (induction b arbitrary: t c rule: length_induct)
  case (1 b)
  show ?case
  proof (cases "b = [] \<or> t = []")
    case True
    then have "relLoop b t = ([], b, t)"
      by (subst relLoop.simps) simp
    with 1(2) show ?thesis by simp
  next
    case False
    let ?bc = "takeWhile (\<lambda>x. x \<noteq> CHR ''/'') b"
    let ?tc = "takeWhile (\<lambda>x. x \<noteq> CHR ''/'') t"
    let ?b' = "drop (Suc (length ?bc)) b"
    let ?t' = "drop (Suc (length ?tc)) t"
    have eqc: "?tc = ?bc"
    proof (rule ccontr)
      assume "?tc \<noteq> ?bc"
      with False have "relLoop b t = (?bc, b, t)"
        by (subst relLoop.simps) (simp add: Let_def)
      with 1(2) False show False by simp
    qed
    with False have step: "relLoop b t = relLoop ?b' ?t'"
      by (subst relLoop.simps) (simp add: Let_def)
    have shorter: "length ?b' < length b"
      using False by simp
    have rec: "relLoop ?b' ?t' = (c, [], [])"
      using step 1(2) by simp
    have ih: "?b' = ?t' \<or> ?b' = ?t' @ ''/'' \<or> ?t' = ?b' @ ''/''"
      using 1(1) shorter rec by blast
    have bs: "(b = ?bc \<and> ?b' = []) \<or> b = ?bc @ CHR ''/'' # ?b'"
      using takeWhile_drop_split [of b] by simp
    have ts: "(t = ?tc \<and> ?t' = []) \<or> t = ?tc @ CHR ''/'' # ?t'"
      using takeWhile_drop_split [of t] by simp
    from bs ts show ?thesis
    proof (elim disjE conjE)
      assume "b = ?bc" "t = ?tc"
      with eqc show ?thesis by metis
    next
      assume b: "b = ?bc" "?b' = []" and t: "t = ?tc @ CHR ''/'' # ?t'"
      from rec b(2) have "relLoop [] ?t' = (c, [], [])" by simp
      then have "?t' = []" by (simp add: relLoop_Nil)
      with t have "t = ?tc @ ''/''" by simp
      with b(1) eqc show ?thesis by metis
    next
      assume b: "b = ?bc @ CHR ''/'' # ?b'" and t: "t = ?tc" "?t' = []"
      from rec t(2) have r: "relLoop ?b' [] = (c, [], [])" by simp
      have "relLoop ?b' [] = ([], ?b', [])"
        by (subst relLoop.simps) simp
      with r have "?b' = []" by simp
      with b have "b = ?bc @ ''/''" by simp
      with t(1) eqc show ?thesis by metis
    next
      assume b: "b = ?bc @ CHR ''/'' # ?b'" and t: "t = ?tc @ CHR ''/'' # ?t'"
      from ih show ?thesis
      proof (elim disjE)
        assume "?b' = ?t'"
        with b t eqc show ?thesis by metis
      next
        assume "?b' = ?t' @ ''/''"
        then have "?bc @ CHR ''/'' # ?b' = (?bc @ CHR ''/'' # ?t') @ ''/''" by simp
        with b t eqc show ?thesis by metis
      next
        assume "?t' = ?b' @ ''/''"
        then have "?tc @ CHR ''/'' # ?t' = (?tc @ CHR ''/'' # ?b') @ ''/''" by simp
        with b t eqc show ?thesis by metis
      qed
    qed
  qed
qed

lemma filepath_Rel_below:
  assumes "q \<noteq> []" and "gs \<noteq> []" and "\<forall>g\<in>set gs. goodSeg g"
  shows "filepath_Rel q (q @ CHR ''/'' # joinSlash gs) = Inr (joinSlash gs)"
proof -
  let ?r = "isRooted q"
  let ?Z = "foldl (cleanStep ?r) [] (splitSlash q)"
  let ?n = "joinSlash gs"
  have base: "path_Clean q = renderPath ?r ?Z"
    using assms(1) by (simp add: path_Clean_def)
  have targ: "path_Clean (q @ CHR ''/'' # ?n) = renderPath ?r (?Z @ gs)"
    using assms by (rule path_Clean_append)
  have keptZ: "\<forall>s\<in>set ?Z. keptSeg s"
    by (rule cleaned_kept)
  have keptG: "\<forall>s\<in>set gs. keptSeg s"
    using assms(3) goodSeg_kept by blast
  have n_ne: "?n \<noteq> []"
    using joinSlash_kept_last(1) [OF assms(2) keptG] .
  have n_dot: "?n \<noteq> ''.''"
    using joinSlash_kept_not_dot [OF assms(2) keptG] .
  have n_rel: "\<not> isRooted ?n"
    using assms(2,3) by (rule joinSlash_good_not_rooted)
  show ?thesis
  proof (cases "?Z = []")
    case True
    show ?thesis
    proof (cases ?r)
      case True
      with \<open>?Z = []\<close> have b: "path_Clean q = ''/''" and t: "path_Clean (q @ CHR ''/'' # ?n) = CHR ''/'' # ?n"
        using base targ by (simp_all add: renderPath_def)
      show ?thesis
        using n_ne by (simp add: filepath_Rel_def b t Let_def isRooted_def relLoop_root)
    next
      case False
      with \<open>?Z = []\<close> have b: "path_Clean q = ''.''" and t: "path_Clean (q @ CHR ''/'' # ?n) = ?n"
        using base targ assms(2) by (simp_all add: renderPath_def)
      show ?thesis
        using n_dot n_rel by (simp add: filepath_Rel_def b t Let_def relLoop_Nil isRooted_def)
    qed
  next
    case False
    let ?b = "renderPath ?r ?Z"
    have jz: "joinSlash ?Z \<noteq> []" "last (joinSlash ?Z) \<noteq> CHR ''/''"
      using joinSlash_kept_last [OF False keptZ] by auto
    have b_ne: "?b \<noteq> []"
      using False jz by (cases "isRooted q") (simp_all add: renderPath_def)
    have b_last: "last ?b \<noteq> CHR ''/''"
      using False jz by (cases "isRooted q") (simp_all add: renderPath_def)
    have b_dot: "?b \<noteq> ''.''"
      using False jz joinSlash_kept_not_dot [OF False keptZ]
      by (cases "isRooted q") (simp_all add: renderPath_def)
    have t_eq: "renderPath ?r (?Z @ gs) = ?b @ CHR ''/'' # ?n"
      using False assms(2) by (cases "isRooted q") (simp_all add: renderPath_def joinSlash_append)
    have t_ne: "?b @ CHR ''/'' # ?n \<noteq> ?b"
      by simp
    have rooted: "isRooted (?b @ CHR ''/'' # ?n) = isRooted ?b"
      using b_ne by (rule isRooted_append)
    have loop: "relLoop ?b (?b @ CHR ''/'' # ?n) = ([], [], ?n)"
      using b_ne b_last by (rule relLoop_extend)
    show ?thesis
      unfolding filepath_Rel_def base targ t_eq
      using t_ne b_dot rooted loop by (simp add: Let_def)
  qed
qed

lemma filepath_Rel_nonempty:
  assumes "filepath_Rel q g = Inr rel"
  shows "rel \<noteq> []"
proof -
  let ?cb = "path_Clean q"
  let ?t = "path_Clean g"
  let ?b = "if ?cb = ''.'' then [] else ?cb"
  note sb = path_Clean_shape [of q]
  note st = path_Clean_shape [of g]
  show ?thesis
  proof (cases "?t = ?cb")
    case True
    with assms show ?thesis by (auto simp: filepath_Rel_def)
  next
    case False
    show ?thesis
    proof (cases "isRooted ?b \<noteq> isRooted ?t")
      case True
      with assms False show ?thesis by (simp add: filepath_Rel_def Let_def)
    next
      case same: False
      obtain bcur brest trest where loop: "relLoop ?b ?t = (bcur, brest, trest)"
        by (cases "relLoop ?b ?t") auto
      show ?thesis
      proof (cases "brest = []")
        case False
        with assms \<open>?t \<noteq> ?cb\<close> same loop show ?thesis
          by (auto simp: filepath_Rel_def Let_def split: if_splits)
      next
        case True
        with assms \<open>?t \<noteq> ?cb\<close> same loop have r: "rel = trest"
          by (auto simp: filepath_Rel_def Let_def split: if_splits)
        show ?thesis
        proof
          assume "rel = []"
          with r True loop have "relLoop ?b ?t = (bcur, [], [])" by simp
          then have "?b = ?t \<or> ?b = ?t @ ''/'' \<or> ?t = ?b @ ''/''"
            by (rule relLoop_exhausted)
          then show False
          proof (elim disjE)
            assume "?b = ?t"
            with \<open>?t \<noteq> ?cb\<close> st show False by (auto split: if_splits)
          next
            assume e: "?b = ?t @ ''/''"
            then have "?cb = ?t @ ''/''" by (auto split: if_splits)
            then have "last ?cb = CHR ''/''" by simp
            with sb have "?cb = ''/''" by blast
            with \<open>?cb = ?t @ ''/''\<close> st show False by simp
          next
            assume e: "?t = ?b @ ''/''"
            then have "last ?t = CHR ''/''" by (metis last_snoc)
            with st have t1: "?t = ''/''" by blast
            with e have "?b = []" by simp
            with t1 same show False by (simp add: isRooted_def)
          qed
        qed
      qed
    qed
  qed
qed

subsection \<open>strings.Replace\<close>

lemma strings_Replace_zero: "strings_Replace s old new 0 = s"
  by (induction s) simp_all

lemma strings_Replace_absent:
  "\<not> strings_Contains s old \<Longrightarrow> strings_Replace s old new k = s"
  by (induction s) simp_all

lemma strings_Replace_nonempty:
  "s \<noteq> [] \<Longrightarrow> new \<noteq> [] \<Longrightarrow> strings_Replace s old new k \<noteq> []"
  by (cases s) simp_all

lemma sanitize_aws:
  "\<not> strings_Contains r ''://'' \<Longrightarrow>
     strings_Replace (''aws://'' @ r) ''://'' ''/'' (- 1) = ''aws/'' @ r"
  by (simp add: strings_Replace_absent)

lemma restore_aws:
  "count \<noteq> 0 \<Longrightarrow>
     strings_Replace (''aws/'' @ r) ''aws/'' ''aws://'' count
       = ''aws://'' @ strings_Replace r ''aws/'' ''aws://'' (count - 1)"
  by simp

subsection \<open>The path mapper\<close>

lemma cleanRelative_segs:
  assumes "cleanRelative n"
  shows "splitSlash n \<noteq> []" and "\<forall>g\<in>set (splitSlash n). goodSeg g" and "joinSlash (splitSlash n) = n"
  using assms
  by (auto simp: cleanRelative_def goodSeg_def list_all_iff joinSlash_splitSlash dest: splitSlash_noslash)

lemma getPdName_of_global:
  assumes "cleanRelative n" and "\<not> strings_Contains n ''../''"
  shows "getPdNameFromGlobalMount count pluginDir (path_Join [pluginDir, ''mounts'', n]) =
           Inr (if strings_HasPrefix n ''aws/''
                then strings_Replace n ''aws/'' ''aws://'' count else n)"
proof -
  let ?gs = "splitSlash n"
  note segs = cleanRelative_segs [OF assms(1)]
  have base_ne: "path_Join [pluginDir, ''mounts''] \<noteq> []"
    and glob: "path_Join [pluginDir, ''mounts'', joinSlash ?gs]
                 = path_Join [pluginDir, ''mounts''] @ CHR ''/'' # joinSlash ?gs"
    using path_Join_mounts [OF segs(1) segs(2)] by blast+
  have rel: "filepath_Rel (path_Join [pluginDir, ''mounts''])
               (path_Join [pluginDir, ''mounts''] @ CHR ''/'' # joinSlash ?gs) = Inr (joinSlash ?gs)"
    using base_ne segs(1) segs(2) by (rule filepath_Rel_below)
  show ?thesis
    using rel glob assms(2)
    by (simp add: getPdNameFromGlobalMount_def segs(3) Let_def)
qed

lemma getPdNameFromGlobalMount_nonempty:
  assumes "getPdNameFromGlobalMount count pluginDir g = Inr name"
  shows "name \<noteq> []"
proof -
  obtain rel where rel: "filepath_Rel (path_Join [pluginDir, ''mounts'']) g = Inr rel"
    using assms by (auto simp: getPdNameFromGlobalMount_def Let_def split: sum.splits)
  then have "rel \<noteq> []" by (rule filepath_Rel_nonempty)
  with assms rel show ?thesis
    by (auto simp: getPdNameFromGlobalMount_def Let_def strings_Replace_nonempty split: if_splits)
qed

text \<open>
  C2, as amended. Let the substituted form of the disk identifier be a relative path in
  clean form (elements separated by single slashes, none empty, \<open>.\<close> or \<open>..\<close>) that does
  not contain the text \<open>../\<close>, and let the identifier either contain no \<open>://\<close> and not
  begin with \<open>aws/\<close>, or be \<open>aws://\<close> followed by a rest without \<open>://\<close> (and, unless
  the count of the reverse replacement is 1, without \<open>aws/\<close>; the count is never 0).
  Then, for every plugin directory, \<open>getPdNameFromGlobalMount\<close> of \<open>makeGlobalPDName\<close>
  of the identifier is the identifier.
\<close>

theorem path_round_trip:
  assumes "cleanRelative (strings_Replace devName ''://'' ''/'' (- 1))"
      and "\<not> strings_Contains (strings_Replace devName ''://'' ''/'' (- 1)) ''../''"
      and "(\<not> strings_Contains devName ''://'' \<and> \<not> strings_HasPrefix devName ''aws/'')
           \<or> (strings_HasPrefix devName ''aws://''
               \<and> \<not> strings_Contains (drop 6 devName) ''://''
               \<and> (count = 1 \<or> (count \<noteq> 0 \<and> \<not> strings_Contains (drop 6 devName) ''aws/'')))"
  shows "getPdNameFromGlobalMount count pluginDir (makeGlobalPDName pluginDir devName) = Inr devName"
proof -
  let ?n = "strings_Replace devName ''://'' ''/'' (- 1)"
  have run: "getPdNameFromGlobalMount count pluginDir (makeGlobalPDName pluginDir devName) =
               Inr (if strings_HasPrefix ?n ''aws/''
                    then strings_Replace ?n ''aws/'' ''aws://'' count else ?n)"
    unfolding makeGlobalPDName_def Let_def
    using assms(1,2) by (rule getPdName_of_global)
  from assms(3) show ?thesis
  proof
    assume plain: "\<not> strings_Contains devName ''://'' \<and> \<not> strings_HasPrefix devName ''aws/''"
    then have "?n = devName"
      by (simp add: strings_Replace_absent)
    with run plain show ?thesis by simp
  next
    assume aws: "strings_HasPrefix devName ''aws://''
               \<and> \<not> strings_Contains (drop 6 devName) ''://''
               \<and> (count = 1 \<or> (count \<noteq> 0 \<and> \<not> strings_Contains (drop 6 devName) ''aws/''))"
    let ?r = "drop 6 devName"
    have dev: "devName = ''aws://'' @ ?r"
    proof -
      from aws have "prefix ''aws://'' devName"
        by (simp add: strings_HasPrefix_def)
      then obtain rest where "devName = ''aws://'' @ rest"
        by (auto simp: prefix_def)
      then show ?thesis by simp
    qed
    have "strings_Replace (''aws://'' @ ?r) ''://'' ''/'' (- 1) = ''aws/'' @ ?r"
      using aws by (intro sanitize_aws) simp
    then have n_eq: "?n = ''aws/'' @ ?r"
      using dev by metis
    have pre: "strings_HasPrefix ?n ''aws/''"
      unfolding n_eq by (simp add: strings_HasPrefix_def)
    have cnt: "count \<noteq> 0"
      using aws by auto
    have "strings_Replace ?r ''aws/'' ''aws://'' (count - 1) = ?r"
      using aws by (auto simp: strings_Replace_zero strings_Replace_absent)
    then have restored: "strings_Replace ?n ''aws/'' ''aws://'' count = ''aws://'' @ ?r"
      unfolding n_eq restore_aws [OF cnt] by (rule arg_cong)
    show ?thesis
      using run pre restored dev by simp
  qed
qed

theorem path_round_trip_witness:
  "cleanRelative (strings_Replace ''aws://us-east-1a/vol-0123456789abcdef0'' ''://'' ''/'' (- 1))
   \<and> \<not> strings_Contains (strings_Replace ''aws://us-east-1a/vol-0123456789abcdef0'' ''://'' ''/'' (- 1)) ''../''
   \<and> strings_HasPrefix ''aws://us-east-1a/vol-0123456789abcdef0'' ''aws://''
   \<and> \<not> strings_Contains (drop 6 ''aws://us-east-1a/vol-0123456789abcdef0'') ''://''
   \<and> getPdNameFromGlobalMount 1 ''/var/lib/kubelet/plugins/kubernetes.io/aws-pd''
        (makeGlobalPDName ''/var/lib/kubelet/plugins/kubernetes.io/aws-pd''
           ''aws://us-east-1a/vol-0123456789abcdef0'')
       = Inr ''aws://us-east-1a/vol-0123456789abcdef0''
   \<and> cleanRelative (strings_Replace ''vol-0123'' ''://'' ''/'' (- 1))
   \<and> \<not> strings_Contains (strings_Replace ''vol-0123'' ''://'' ''/'' (- 1)) ''../''
   \<and> \<not> strings_Contains ''vol-0123'' ''://''
   \<and> \<not> strings_HasPrefix ''vol-0123'' ''aws/''
   \<and> getPdNameFromGlobalMount (- 1) ''/var/lib/kubelet/plugins/kubernetes.io/aws-pd''
        (makeGlobalPDName ''/var/lib/kubelet/plugins/kubernetes.io/aws-pd'' ''vol-0123'')
       = Inr ''vol-0123''"
proof -
  have a1: "cleanRelative (strings_Replace ''aws://us-east-1a/vol-0123456789abcdef0'' ''://'' ''/'' (- 1))"
    by code_simp
  have a2: "\<not> strings_Contains (strings_Replace ''aws://us-east-1a/vol-0123456789abcdef0'' ''://'' ''/'' (- 1)) ''../''"
    by code_simp
  have a3: "strings_HasPrefix ''aws://us-east-1a/vol-0123456789abcdef0'' ''aws://''"
    by code_simp
  have a4: "\<not> strings_Contains (drop 6 ''aws://us-east-1a/vol-0123456789abcdef0'') ''://''"
    by code_simp
  have a: "(\<not> strings_Contains ''aws://us-east-1a/vol-0123456789abcdef0'' ''://''
              \<and> \<not> strings_HasPrefix ''aws://us-east-1a/vol-0123456789abcdef0'' ''aws/'')
           \<or> (strings_HasPrefix ''aws://us-east-1a/vol-0123456789abcdef0'' ''aws://''
               \<and> \<not> strings_Contains (drop 6 ''aws://us-east-1a/vol-0123456789abcdef0'') ''://''
               \<and> ((1::int) = 1 \<or> ((1::int) \<noteq> 0
                     \<and> \<not> strings_Contains (drop 6 ''aws://us-east-1a/vol-0123456789abcdef0'') ''aws/'')))"
    using a3 a4 by blast
  have b1: "cleanRelative (strings_Replace ''vol-0123'' ''://'' ''/'' (- 1))"
    by code_simp
  have b2: "\<not> strings_Contains (strings_Replace ''vol-0123'' ''://'' ''/'' (- 1)) ''../''"
    by code_simp
  have b3: "\<not> strings_Contains ''vol-0123'' ''://''"
    by code_simp
  have b4: "\<not> strings_HasPrefix ''vol-0123'' ''aws/''"
    by code_simp
  have b: "(\<not> strings_Contains ''vol-0123'' ''://'' \<and> \<not> strings_HasPrefix ''vol-0123'' ''aws/'')
           \<or> (strings_HasPrefix ''vol-0123'' ''aws://''
               \<and> \<not> strings_Contains (drop 6 ''vol-0123'') ''://''
               \<and> ((- 1::int) = 1 \<or> ((- 1::int) \<noteq> 0 \<and> \<not> strings_Contains (drop 6 ''vol-0123'') ''aws/'')))"
    using b3 b4 by blast
  note r1 = path_round_trip [OF a1 a2 a, of "''/var/lib/kubelet/plugins/kubernetes.io/aws-pd''"]
  note r2 = path_round_trip [OF b1 b2 b, of "''/var/lib/kubelet/plugins/kubernetes.io/aws-pd''"]
  show ?thesis
    using a1 a2 a3 a4 b1 b2 b3 b4 r1 r2 by blast
qed

text \<open>
  C2 as stated fails. None of these identifiers has a \<open>..\<close> in its substituted form,
  and none comes back: an identifier of another provider (\<open>gce://\<close>) comes back with
  \<open>/\<close> for \<open>://\<close>, whatever the count; \<open>aws/vol-1\<close> comes back as \<open>aws://vol-1\<close>; and
  \<open>vol//1\<close> comes back as \<open>vol/1\<close>.
\<close>

theorem path_round_trip_counterexample:
  "\<not> strings_Contains (strings_Replace ''gce://us-central1-a/disk-1'' ''://'' ''/'' (- 1)) ''..''
   \<and> getPdNameFromGlobalMount 1 ''/var/lib/kubelet/plugins/kubernetes.io/aws-pd''
        (makeGlobalPDName ''/var/lib/kubelet/plugins/kubernetes.io/aws-pd'' ''gce://us-central1-a/disk-1'')
       = Inr ''gce/us-central1-a/disk-1''
   \<and> getPdNameFromGlobalMount (- 1) ''/var/lib/kubelet/plugins/kubernetes.io/aws-pd''
        (makeGlobalPDName ''/var/lib/kubelet/plugins/kubernetes.io/aws-pd'' ''gce://us-central1-a/disk-1'')
       = Inr ''gce/us-central1-a/disk-1''
   \<and> ''gce/us-central1-a/disk-1'' \<noteq> ''gce://us-central1-a/disk-1''
   \<and> \<not> strings_Contains (strings_Replace ''aws/vol-1'' ''://'' ''/'' (- 1)) ''..''
   \<and> getPdNameFromGlobalMount 1 ''/var/lib/kubelet/plugins/kubernetes.io/aws-pd''
        (makeGlobalPDName ''/var/lib/kubelet/plugins/kubernetes.io/aws-pd'' ''aws/vol-1'')
       = Inr ''aws://vol-1''
   \<and> \<not> strings_Contains (strings_Replace ''vol//1'' ''://'' ''/'' (- 1)) ''..''
   \<and> getPdNameFromGlobalMount 1 ''/var/lib/kubelet/plugins/kubernetes.io/aws-pd''
        (makeGlobalPDName ''/var/lib/kubelet/plugins/kubernetes.io/aws-pd'' ''vol//1'')
       = Inr ''vol/1''"
  by code_simp

text \<open>
  C3. At the failing input the global path is the plugin directory itself, the parent of
  the mount root: its relative path is \<open>..\<close>, which does not contain the text \<open>../\<close>
  that the function looks for, and the function returns \<open>..\<close> as the identifier, with
  no error, whatever the count.
\<close>

theorem getPdNameFromGlobalMount_parent_accepted:
  "getPdNameFromGlobalMount count ''/var/lib/kubelet/plugins/kubernetes.io/aws-pd''
     ''/var/lib/kubelet/plugins/kubernetes.io/aws-pd'' = Inr ''..''"
proof -
  have base: "path_Join [''/var/lib/kubelet/plugins/kubernetes.io/aws-pd'', ''mounts'']
                = ''/var/lib/kubelet/plugins/kubernetes.io/aws-pd/mounts''"
    by code_simp
  have rel: "filepath_Rel ''/var/lib/kubelet/plugins/kubernetes.io/aws-pd/mounts''
               ''/var/lib/kubelet/plugins/kubernetes.io/aws-pd'' = Inr ''..''"
    by code_simp
  have nc: "\<not> strings_Contains ''..'' ''../''"
    by code_simp
  have np: "\<not> strings_HasPrefix ''..'' ''aws/''"
    by code_simp
  show ?thesis
    unfolding getPdNameFromGlobalMount_def base Let_def
    using rel nc np by simp
qed

subsection \<open>Calls and states\<close>

lemma perform_beta:
  "perform c f s = (fst (f (world s)), s\<lparr>world := snd (f (world s)), calls := calls s @ [c]\<rparr>)"
  by (simp add: perform_def case_prod_beta)

lemma calls_detachDiskLogError:
  "calls (detachDiskLogError sys pd s) = calls s @ [CallDetachDisk pd]"
  by (simp add: detachDiskLogError_def perform_beta glog_def case_prod_beta)

lemma tearDownRecheck_detach:
  "filter isDetachDisk (calls (snd (snd (tearDownRecheck sys pd dir err s)))) =
     filter isDetachDisk (calls s)"
  by (simp add: tearDownRecheck_def perform_beta glog_def case_prod_beta isDetachDisk_def)

lemma tearDownRecheck_detach_mem:
  "CallDetachDisk p \<in> set (calls (snd (snd (tearDownRecheck sys pd dir err s)))) \<longleftrightarrow>
     CallDetachDisk p \<in> set (calls s)"
  by (simp add: tearDownRecheck_def perform_beta glog_def case_prod_beta)

lemma bindMountFailed_fst: "fst (bindMountFailed sys pd dir err s) = err"
  by (simp add: bindMountFailed_def case_prod_beta)

lemma bindMountFailed_calls:
  "\<exists>rest. calls (snd (bindMountFailed sys pd dir err s)) = calls s @ CallIsMountPoint dir # rest"
  by (simp add: bindMountFailed_def perform_beta glog_def calls_detachDiskLogError case_prod_beta)

lemma bindMountFailed_take:
  assumes "n \<le> length (calls s)"
  shows "take n (calls (snd (bindMountFailed sys pd dir err s))) = take n (calls s)"
proof -
  obtain rest where "calls (snd (bindMountFailed sys pd dir err s)) = calls s @ CallIsMountPoint dir # rest"
    using bindMountFailed_calls by blast
  with assms show ?thesis by simp
qed

lemma bindMountFailed_mounted:
  assumes "IsMountPoint sys dir (world s) = ((True, None), w5)"
      and "Unmount sys dir 0 w5 = (uerr, w6)"
      and "IsMountPoint sys dir w6 = ((still, cerr), w7)"
  shows "calls (snd (bindMountFailed sys pd dir err s)) =
           calls s @ [CallIsMountPoint dir, CallUnmount dir 0]
           @ (if uerr \<noteq> None then []
              else CallIsMountPoint dir
                   # (if cerr \<noteq> None \<or> still then []
                      else [CallRemove dir, CallDetachDisk pd]))"
  using assms
  by (simp add: bindMountFailed_def perform_beta glog_def calls_detachDiskLogError case_prod_beta)

lemmas setup_simps = SetUpAt_def perform_beta glog_def start_def Let_def case_prod_beta

subsection \<open>TearDownAt\<close>

text \<open>
  C1, as amended. In a call \<open>TearDownAt(dir)\<close> whose first query reports, without error,
  that \<open>dir\<close> is a mount point, \<open>DetachDisk\<close> is called (once, on the volume with the
  recovered identifier) exactly when \<open>GetMountRefs\<close> succeeds, the unmount succeeds, the
  enumeration has length one and \<open>getPdNameFromGlobalMount\<close> succeeds on its only
  entry; with any other length of the enumeration \<open>DetachDisk\<close> is not called.
\<close>

theorem TearDownAt_detach_iff:
  assumes "IsMountPoint sys dir w = ((True, None), w1)"
      and "GetMountRefs sys dir w1 = ((refs, rerr), w2)"
      and "Unmount sys dir 0 w2 = (uerr, w3)"
  shows "filter isDetachDisk (calls (snd (snd (TearDownAt count sys pd dir (start w))))) =
           (if rerr = None \<and> uerr = None \<and> length refs = 1
            then (case getPdNameFromGlobalMount count
                         (GetPluginDir sys awsPersistentDiskPluginName) (hd refs) of
                    Inl e \<Rightarrow> []
                  | Inr name \<Rightarrow> [CallDetachDisk (pd\<lparr>pdName := name\<rparr>)])
            else [])
         \<and> (length refs \<noteq> 1 \<longrightarrow>
              filter isDetachDisk (calls (snd (snd (TearDownAt count sys pd dir (start w))))) = [])"
  using assms
  by (simp add: TearDownAt_def perform_beta glog_def start_def Let_def case_prod_beta
        tearDownRecheck_detach isDetachDisk_def split: sum.splits)

theorem TearDownAt_detach_iff_witness:
  "IsMountPoint (scripted ''/p'') ''/pods/v'' lastRefScript = ((True, None), tl lastRefScript)
   \<and> GetMountRefs (scripted ''/p'') ''/pods/v'' (tl lastRefScript)
       = (([''/p/mounts/aws/us-east-1a/vol-1''], None), drop 2 lastRefScript)
   \<and> Unmount (scripted ''/p'') ''/pods/v'' 0 (drop 2 lastRefScript) = (None, drop 3 lastRefScript)
   \<and> filter isDetachDisk (calls (snd (snd (TearDownAt 1 (scripted ''/p'') cleaner ''/pods/v''
          (start lastRefScript)))))
       = [CallDetachDisk (cleaner\<lparr>pdName := ''aws://us-east-1a/vol-1''\<rparr>)]
   \<and> IsMountPoint (scripted ''/p'') ''/pods/v'' sharedScript = ((True, None), tl sharedScript)
   \<and> GetMountRefs (scripted ''/p'') ''/pods/v'' (tl sharedScript)
       = (([''/p/mounts/aws/us-east-1a/vol-1'', ''/pods/other''], None), drop 2 sharedScript)
   \<and> Unmount (scripted ''/p'') ''/pods/v'' 0 (drop 2 sharedScript) = (None, drop 3 sharedScript)
   \<and> filter isDetachDisk (calls (snd (snd (TearDownAt 1 (scripted ''/p'') cleaner ''/pods/v''
          (start sharedScript))))) = []"
proof -
  have a1: "IsMountPoint (scripted ''/p'') ''/pods/v'' lastRefScript = ((True, None), tl lastRefScript)"
    by code_simp
  have a2: "GetMountRefs (scripted ''/p'') ''/pods/v'' (tl lastRefScript)
       = (([''/p/mounts/aws/us-east-1a/vol-1''], None), drop 2 lastRefScript)"
    by code_simp
  have a3: "Unmount (scripted ''/p'') ''/pods/v'' 0 (drop 2 lastRefScript) = (None, drop 3 lastRefScript)"
    by code_simp
  have rec: "getPdNameFromGlobalMount 1 (GetPluginDir (scripted ''/p'') awsPersistentDiskPluginName)
               ''/p/mounts/aws/us-east-1a/vol-1'' = Inr ''aws://us-east-1a/vol-1''"
    by code_simp
  have b1: "IsMountPoint (scripted ''/p'') ''/pods/v'' sharedScript = ((True, None), tl sharedScript)"
    by code_simp
  have b2: "GetMountRefs (scripted ''/p'') ''/pods/v'' (tl sharedScript)
       = (([''/p/mounts/aws/us-east-1a/vol-1'', ''/pods/other''], None), drop 2 sharedScript)"
    by code_simp
  have b3: "Unmount (scripted ''/p'') ''/pods/v'' 0 (drop 2 sharedScript) = (None, drop 3 sharedScript)"
    by code_simp
  show ?thesis
    using a1 a2 a3 b1 b2 b3 rec
      TearDownAt_detach_iff [OF a1 a2 a3, of 1 cleaner]
      TearDownAt_detach_iff [OF b1 b2 b3, of 1 cleaner]
    by simp
qed

text \<open>
  C1 as stated fails: with an enumeration of length one, \<open>DetachDisk\<close> is not called
  when the only reference lies outside the plugin's mount root (the identifier cannot be
  recovered), nor when the unmount fails.
\<close>

theorem TearDownAt_detach_iff_counterexample:
  "IsMountPoint (scripted ''/p'') ''/pods/v'' foreignRefScript = ((True, None), tl foreignRefScript)
   \<and> length (fst (fst (GetMountRefs (scripted ''/p'') ''/pods/v'' (tl foreignRefScript)))) = 1
   \<and> filter isDetachDisk (calls (snd (snd (TearDownAt 1 (scripted ''/p'') cleaner ''/pods/v''
            (start foreignRefScript))))) = []
   \<and> IsMountPoint (scripted ''/p'') ''/pods/v'' busyScript = ((True, None), tl busyScript)
   \<and> length (fst (fst (GetMountRefs (scripted ''/p'') ''/pods/v'' (tl busyScript)))) = 1
   \<and> filter isDetachDisk (calls (snd (snd (TearDownAt 1 (scripted ''/p'') cleaner ''/pods/v''
            (start busyScript))))) = []"
  by code_simp

text \<open>
  C6, as amended. When the first query of \<open>TearDownAt(dir)\<close> reports, without error,
  that \<open>dir\<close> is not a mount point, the call removes the directory and returns the
  result of that removal (success exactly when the removal succeeds); the query and the
  removal are the only calls made: no disk-manager operation, no unmount.
\<close>

theorem TearDownAt_not_mountpoint:
  assumes "IsMountPoint sys dir w = ((False, None), w1)"
      and "Remove sys dir w1 = (rerr, w2)"
  shows "TearDownAt count sys pd dir (start w) =
           (rerr, pd,
            \<lparr>world = w2, calls = [CallIsMountPoint dir, CallRemove dir],
             logs = [VInfo 2 [S ''Not mountpoint, deleting'']]\<rparr>)"
  using assms by (simp add: TearDownAt_def perform_def glog_def start_def)

theorem TearDownAt_not_mountpoint_witness:
  "IsMountPoint (scripted ''/p'') ''/pods/v'' [RMount False None, RErr None]
     = ((False, None), [RErr None])
   \<and> Remove (scripted ''/p'') ''/pods/v'' [RErr None] = (None, [])
   \<and> TearDownAt 1 (scripted ''/p'') cleaner ''/pods/v'' (start [RMount False None, RErr None]) =
       (None, cleaner,
        \<lparr>world = [], calls = [CallIsMountPoint ''/pods/v'', CallRemove ''/pods/v''],
         logs = [VInfo 2 [S ''Not mountpoint, deleting'']]\<rparr>)"
proof -
  have h1: "IsMountPoint (scripted ''/p'') ''/pods/v'' [RMount False None, RErr None]
     = ((False, None), [RErr None])"
    by (simp add: scripted_def nextMount_def)
  have h2: "Remove (scripted ''/p'') ''/pods/v'' [RErr None] = (None, [])"
    by (simp add: scripted_def nextErr_def)
  show ?thesis using h1 h2 TearDownAt_not_mountpoint [OF h1 h2, of 1 cleaner] by simp
qed

text \<open>
  C6 as stated fails: a directory that is not a mount point and cannot be removed (it is
  not empty) makes the call return the error of the removal.
\<close>

theorem TearDownAt_not_mountpoint_counterexample:
  "IsMountPoint (scripted ''/p'') ''/pods/v''
      [RMount False None, RErr (Some (OtherError ''directory not empty''))]
     = ((False, None), [RErr (Some (OtherError ''directory not empty''))])
   \<and> fst (TearDownAt 1 (scripted ''/p'') cleaner ''/pods/v''
            (start [RMount False None, RErr (Some (OtherError ''directory not empty''))]))
       = Some (OtherError ''directory not empty'')"
  by (simp add: TearDownAt_def script_simps)

text \<open>
  C8. At the failing input the final mount-status query fails with an input/output
  error; \<open>TearDownAt\<close> logs it and returns \<open>nil\<close>: the branch returns the variable
  \<open>err\<close>, which is \<open>nil\<close> there, and not \<open>mntErr\<close>.
\<close>

theorem TearDownAt_recheck_error_swallowed:
  "TearDownAt 1 (scripted ''/p'') cleaner ''/pods/v'' (start recheckFailScript) =
     (None, cleaner,
      \<lparr>world = [],
       calls = [CallIsMountPoint ''/pods/v'', CallGetMountRefs ''/pods/v'',
                CallUnmount ''/pods/v'' 0, CallIsMountPoint ''/pods/v''],
       logs = [Errorf ''isMountpoint check failed: %v''
                 [E (Some (OtherError ''input/output error''))]]\<rparr>)"
  by code_simp

lemma TearDownAt_detach_recovered:
  assumes "IsMountPoint sys dir w = ((mp, e0), w1)"
      and "GetMountRefs sys dir w1 = ((refs, rerr), w2)"
      and "Unmount sys dir 0 w2 = (uerr, w3)"
  shows "(\<forall>p. CallDetachDisk p \<in> set (calls (snd (snd (TearDownAt count sys pd dir (start w))))) \<longrightarrow>
            length refs = 1
            \<and> getPdNameFromGlobalMount count (GetPluginDir sys awsPersistentDiskPluginName) (hd refs)
                = Inr (pdName p)
            \<and> p = pd\<lparr>pdName := pdName p\<rparr>)
         \<and> (\<forall>e. mp \<and> e0 = None \<and> rerr = None \<and> uerr = None \<and> length refs = 1
                 \<and> getPdNameFromGlobalMount count (GetPluginDir sys awsPersistentDiskPluginName) (hd refs)
                     = Inl e \<longrightarrow>
               fst (TearDownAt count sys pd dir (start w)) = Some e
               \<and> filter isDetachDisk (calls (snd (snd (TearDownAt count sys pd dir (start w))))) = [])"
  using assms
  by (simp add: TearDownAt_def perform_beta glog_def start_def Let_def case_prod_beta
        tearDownRecheck_detach_mem isDetachDisk_def split: sum.splits)

text \<open>
  C9. Every \<open>DetachDisk\<close> call of \<open>TearDownAt\<close> is made on the volume whose \<open>pdName\<close> is
  not empty: it is the identifier that \<open>getPdNameFromGlobalMount\<close> recovers from the only
  entry of the enumeration, whatever \<open>pdName\<close> held before (the other fields are
  unchanged); and when that recovery fails the call returns its error and \<open>DetachDisk\<close>
  is not called.
\<close>

theorem TearDownAt_detach_pdName:
  assumes "IsMountPoint sys dir w = ((mp, e0), w1)"
      and "GetMountRefs sys dir w1 = ((refs, rerr), w2)"
      and "Unmount sys dir 0 w2 = (uerr, w3)"
  shows "(\<forall>p. CallDetachDisk p \<in> set (calls (snd (snd (TearDownAt count sys pd dir (start w))))) \<longrightarrow>
            pdName p \<noteq> []
            \<and> length refs = 1
            \<and> getPdNameFromGlobalMount count (GetPluginDir sys awsPersistentDiskPluginName) (hd refs)
                = Inr (pdName p)
            \<and> p = pd\<lparr>pdName := pdName p\<rparr>)
         \<and> (\<forall>e. mp \<and> e0 = None \<and> rerr = None \<and> uerr = None \<and> length refs = 1
                 \<and> getPdNameFromGlobalMount count (GetPluginDir sys awsPersistentDiskPluginName) (hd refs)
                     = Inl e \<longrightarrow>
               fst (TearDownAt count sys pd dir (start w)) = Some e
               \<and> filter isDetachDisk (calls (snd (snd (TearDownAt count sys pd dir (start w))))) = [])"
proof -
  note core = TearDownAt_detach_recovered [OF assms, of count pd]
  have "pdName p \<noteq> []"
    if "CallDetachDisk p \<in> set (calls (snd (snd (TearDownAt count sys pd dir (start w)))))" for p
  proof -
    from core that
    have "getPdNameFromGlobalMount count (GetPluginDir sys awsPersistentDiskPluginName) (hd refs)
            = Inr (pdName p)"
      by blast
    then show ?thesis by (rule getPdNameFromGlobalMount_nonempty)
  qed
  with core show ?thesis by blast
qed

theorem TearDownAt_detach_pdName_witness:
  "IsMountPoint (scripted ''/p'') ''/pods/v'' lastRefScript = ((True, None), tl lastRefScript)
   \<and> GetMountRefs (scripted ''/p'') ''/pods/v'' (tl lastRefScript)
       = (([''/p/mounts/aws/us-east-1a/vol-1''], None), drop 2 lastRefScript)
   \<and> Unmount (scripted ''/p'') ''/pods/v'' 0 (drop 2 lastRefScript) = (None, drop 3 lastRefScript)
   \<and> pdName cleaner = []
   \<and> CallDetachDisk (cleaner\<lparr>pdName := ''aws://us-east-1a/vol-1''\<rparr>)
        \<in> set (calls (snd (snd (TearDownAt 1 (scripted ''/p'') cleaner ''/pods/v'' (start lastRefScript)))))
   \<and> pdName (cleaner\<lparr>pdName := ''aws://us-east-1a/vol-1''\<rparr>) \<noteq> []
   \<and> getPdNameFromGlobalMount 1 (GetPluginDir (scripted ''/p'') awsPersistentDiskPluginName)
        (hd [''/p/mounts/aws/us-east-1a/vol-1''])
       = Inr (pdName (cleaner\<lparr>pdName := ''aws://us-east-1a/vol-1''\<rparr>))
   \<and> IsMountPoint (scripted ''/p'') ''/pods/v'' foreignRefScript = ((True, None), tl foreignRefScript)
   \<and> GetMountRefs (scripted ''/p'') ''/pods/v'' (tl foreignRefScript)
       = (([''/mnt/data''], None), drop 2 foreignRefScript)
   \<and> Unmount (scripted ''/p'') ''/pods/v'' 0 (drop 2 foreignRefScript) = (None, drop 3 foreignRefScript)
   \<and> getPdNameFromGlobalMount 1 (GetPluginDir (scripted ''/p'') awsPersistentDiskPluginName)
        (hd [''/mnt/data'']) = Inl (OtherError ''Unexpected mount path: /mnt/data'')
   \<and> fst (TearDownAt 1 (scripted ''/p'') cleaner ''/pods/v'' (start foreignRefScript))
       = Some (OtherError ''Unexpected mount path: /mnt/data'')
   \<and> filter isDetachDisk (calls (snd (snd (TearDownAt 1 (scripted ''/p'') cleaner ''/pods/v''
          (start foreignRefScript))))) = []"
proof -
  have a1: "IsMountPoint (scripted ''/p'') ''/pods/v'' lastRefScript = ((True, None), tl lastRefScript)"
    by code_simp
  have a2: "GetMountRefs (scripted ''/p'') ''/pods/v'' (tl lastRefScript)
       = (([''/p/mounts/aws/us-east-1a/vol-1''], None), drop 2 lastRefScript)"
    by code_simp
  have a3: "Unmount (scripted ''/p'') ''/pods/v'' 0 (drop 2 lastRefScript) = (None, drop 3 lastRefScript)"
    by code_simp
  have mem: "CallDetachDisk (cleaner\<lparr>pdName := ''aws://us-east-1a/vol-1''\<rparr>)
        \<in> set (calls (snd (snd (TearDownAt 1 (scripted ''/p'') cleaner ''/pods/v'' (start lastRefScript)))))"
    by code_simp
  have c1: "IsMountPoint (scripted ''/p'') ''/pods/v'' foreignRefScript = ((True, None), tl foreignRefScript)"
    by code_simp
  have c2: "GetMountRefs (scripted ''/p'') ''/pods/v'' (tl foreignRefScript)
       = (([''/mnt/data''], None), drop 2 foreignRefScript)"
    by code_simp
  have c3: "Unmount (scripted ''/p'') ''/pods/v'' 0 (drop 2 foreignRefScript) = (None, drop 3 foreignRefScript)"
    by code_simp
  have bad: "getPdNameFromGlobalMount 1 (GetPluginDir (scripted ''/p'') awsPersistentDiskPluginName)
        (hd [''/mnt/data'']) = Inl (OtherError ''Unexpected mount path: /mnt/data'')"
    by code_simp
  have empty: "pdName cleaner = []"
    by (simp add: cleaner_def)
  note t1 = TearDownAt_detach_pdName [OF a1 a2 a3, of 1 cleaner]
  note t2 = TearDownAt_detach_pdName [OF c1 c2 c3, of 1 cleaner]
  from t1 mem have r1: "pdName (cleaner\<lparr>pdName := ''aws://us-east-1a/vol-1''\<rparr>) \<noteq> []
     \<and> getPdNameFromGlobalMount 1 (GetPluginDir (scripted ''/p'') awsPersistentDiskPluginName)
        (hd [''/p/mounts/aws/us-east-1a/vol-1''])
       = Inr (pdName (cleaner\<lparr>pdName := ''aws://us-east-1a/vol-1''\<rparr>))"
    by blast
  from t2 bad have r2: "fst (TearDownAt 1 (scripted ''/p'') cleaner ''/pods/v'' (start foreignRefScript))
       = Some (OtherError ''Unexpected mount path: /mnt/data'')
   \<and> filter isDetachDisk (calls (snd (snd (TearDownAt 1 (scripted ''/p'') cleaner ''/pods/v''
          (start foreignRefScript))))) = []"
    by simp
  show ?thesis
    using a1 a2 a3 c1 c2 c3 mem bad empty r1 r2 by blast
qed

text \<open>
  C10. When the first mount-status query of \<open>TearDownAt(dir)\<close> fails, with whatever
  error (also the one of a path that does not exist), the call returns that error at
  once: the query is the only call made, so nothing is removed or unmounted and the disk
  manager is not touched, and the volume is unchanged.
\<close>

theorem TearDownAt_query_error:
  assumes "IsMountPoint sys dir w = ((mp, Some e), w')"
  shows "TearDownAt count sys pd dir (start w) =
           (Some e, pd,
            \<lparr>world = w', calls = [CallIsMountPoint dir],
             logs = [VInfo 2 [S ''Error checking if mountpoint '', S dir, S '': '', E (Some e)]]\<rparr>)"
  using assms by (simp add: TearDownAt_def perform_def glog_def start_def)

theorem TearDownAt_query_error_witness:
  "IsMountPoint (scripted ''/p'') ''/pods/v'' [RMount False (Some (NotExist ''/pods/v''))]
     = ((False, Some (NotExist ''/pods/v'')), [])
   \<and> TearDownAt 1 (scripted ''/p'') cleaner ''/pods/v''
         (start [RMount False (Some (NotExist ''/pods/v''))]) =
       (Some (NotExist ''/pods/v''), cleaner,
        \<lparr>world = [], calls = [CallIsMountPoint ''/pods/v''],
         logs = [VInfo 2 [S ''Error checking if mountpoint '', S ''/pods/v'', S '': '',
                          E (Some (NotExist ''/pods/v''))]]\<rparr>)"
proof -
  have h: "IsMountPoint (scripted ''/p'') ''/pods/v'' [RMount False (Some (NotExist ''/pods/v''))]
     = ((False, Some (NotExist ''/pods/v'')), [])"
    by (simp add: scripted_def nextMount_def)
  show ?thesis using h TearDownAt_query_error [OF h, of 1 cleaner] by simp
qed

subsection \<open>SetUpAt\<close>

text \<open>
  C4. When the first mount-status query of \<open>SetUpAt(dir)\<close> returns no error other than
  "does not exist": if it reports a mount point, the call returns success and the query
  is its only call (no attach, no mount); if it does not, as for a path that does not
  exist, the call goes on to \<open>AttachAndMountDisk\<close> at the global path.
\<close>

theorem SetUpAt_already_mounted:
  assumes "IsMountPoint sys dir w = ((mp, e0), w1)"
      and "\<not> otherThanNotExist e0"
  shows "(mp \<longrightarrow>
            SetUpAt sys pd dir (start w) =
              (None, \<lparr>world = w1, calls = [CallIsMountPoint dir],
                      logs = [VInfof 4 ''PersistentDisk set up: %s %v %v'' [S dir, B True, E e0]]\<rparr>))
         \<and> (\<not> mp \<longrightarrow>
              take 2 (calls (snd (SetUpAt sys pd dir (start w)))) =
                [CallIsMountPoint dir,
                 CallAttachAndMountDisk pd
                   (makeGlobalPDName (GetPluginDir sys awsPersistentDiskPluginName) (pdName pd))])"
  using assms
  by (simp add: setup_simps calls_detachDiskLogError bindMountFailed_take)

theorem SetUpAt_already_mounted_witness:
  "IsMountPoint (scripted ''/p'') ''/pods/v'' mountedScript = ((True, None), [])
   \<and> \<not> otherThanNotExist None
   \<and> SetUpAt (scripted ''/p'') builder ''/pods/v'' (start mountedScript) =
       (None, \<lparr>world = [], calls = [CallIsMountPoint ''/pods/v''],
               logs = [VInfof 4 ''PersistentDisk set up: %s %v %v''
                         [S ''/pods/v'', B True, E None]]\<rparr>)
   \<and> IsMountPoint (scripted ''/p'') ''/pods/v'' freshScript
       = ((False, Some (NotExist ''/pods/v'')), drop 1 freshScript)
   \<and> \<not> otherThanNotExist (Some (NotExist ''/pods/v''))
   \<and> take 2 (calls (snd (SetUpAt (scripted ''/p'') builder ''/pods/v'' (start freshScript)))) =
       [CallIsMountPoint ''/pods/v'', CallAttachAndMountDisk builder globalPath]"
proof -
  have a1: "IsMountPoint (scripted ''/p'') ''/pods/v'' mountedScript = ((True, None), [])"
    by code_simp
  have a2: "\<not> otherThanNotExist None"
    by (simp add: otherThanNotExist_def)
  have b1: "IsMountPoint (scripted ''/p'') ''/pods/v'' freshScript
       = ((False, Some (NotExist ''/pods/v'')), drop 1 freshScript)"
    by code_simp
  have b2: "\<not> otherThanNotExist (Some (NotExist ''/pods/v''))"
    by (simp add: otherThanNotExist_def)
  show ?thesis
    using a1 a2 b1 b2
      SetUpAt_already_mounted [OF a1 a2, of builder]
      SetUpAt_already_mounted [OF b1 b2, of builder]
    by (simp add: globalPath_def)
qed

text \<open>
  C5, as amended. When the attach and the directory creation succeed, the bind mount
  fails and the check that follows reports, without error, that \<open>dir\<close> is a mount point,
  \<open>SetUpAt\<close> calls the unmount and returns the error of the bind mount, whatever the
  clean-up does. It goes on to remove the directory and to call the best-effort detach
  exactly when the unmount succeeds and the second check reports, without error, that
  \<open>dir\<close> is no longer a mount point; when the unmount fails, the second check fails or
  \<open>dir\<close> is still a mount point, it makes no further call.
\<close>

theorem SetUpAt_bind_rollback:
  assumes "IsMountPoint sys dir w = ((False, e0), w1)"
      and "\<not> otherThanNotExist e0"
      and "AttachAndMountDisk sys pd
             (makeGlobalPDName (GetPluginDir sys awsPersistentDiskPluginName) (pdName pd)) w1 = (None, w2)"
      and "MkdirAll sys dir 488 w2 = (None, w3)"
      and "Mount sys (makeGlobalPDName (GetPluginDir sys awsPersistentDiskPluginName) (pdName pd)) dir []
             ({FlagBind} \<union> (if readOnly pd then {FlagReadOnly} else {})) [] w3 = (Some berr, w4)"
      and "IsMountPoint sys dir w4 = ((True, None), w5)"
      and "Unmount sys dir 0 w5 = (uerr, w6)"
      and "IsMountPoint sys dir w6 = ((still, cerr), w7)"
  shows "fst (SetUpAt sys pd dir (start w)) = Some berr
         \<and> calls (snd (SetUpAt sys pd dir (start w))) =
             [CallIsMountPoint dir,
              CallAttachAndMountDisk pd
                (makeGlobalPDName (GetPluginDir sys awsPersistentDiskPluginName) (pdName pd)),
              CallMkdirAll dir 488,
              CallMount (makeGlobalPDName (GetPluginDir sys awsPersistentDiskPluginName) (pdName pd))
                dir [] ({FlagBind} \<union> (if readOnly pd then {FlagReadOnly} else {})) [],
              CallIsMountPoint dir, CallUnmount dir 0]
             @ (if uerr \<noteq> None then []
                else CallIsMountPoint dir
                     # (if cerr \<noteq> None \<or> still then []
                        else [CallRemove dir, CallDetachDisk pd]))"
proof -
  let ?g = "makeGlobalPDName (GetPluginDir sys awsPersistentDiskPluginName) (pdName pd)"
  let ?fl = "{FlagBind} \<union> (if readOnly pd then {FlagReadOnly} else {})"
  let ?s4 = "\<lparr>world = w4,
              calls = [CallIsMountPoint dir, CallAttachAndMountDisk pd ?g, CallMkdirAll dir 488,
                       CallMount ?g dir [] ?fl []],
              logs = [VInfof 4 ''PersistentDisk set up: %s %v %v'' [S dir, B False, E e0]]\<rparr>"
  have run: "SetUpAt sys pd dir (start w) = bindMountFailed sys pd dir (Some berr) ?s4"
    using assms(1-5) by (simp add: setup_simps)
  have w4: "IsMountPoint sys dir (world ?s4) = ((True, None), w5)"
    using assms(6) by simp
  show ?thesis
    unfolding run
    using bindMountFailed_mounted [OF w4 assms(7) assms(8), of pd "Some berr"]
    by (simp add: bindMountFailed_fst)
qed

theorem SetUpAt_bind_rollback_witness:
  "IsMountPoint (scripted ''/p'') ''/pods/v'' rollbackScript = ((False, None), drop 1 rollbackScript)
   \<and> \<not> otherThanNotExist None
   \<and> AttachAndMountDisk (scripted ''/p'') builder globalPath (drop 1 rollbackScript)
       = (None, drop 2 rollbackScript)
   \<and> MkdirAll (scripted ''/p'') ''/pods/v'' 488 (drop 2 rollbackScript) = (None, drop 3 rollbackScript)
   \<and> Mount (scripted ''/p'') globalPath ''/pods/v'' [] {FlagBind} [] (drop 3 rollbackScript)
       = (Some (OtherError ''mount failed''), drop 4 rollbackScript)
   \<and> IsMountPoint (scripted ''/p'') ''/pods/v'' (drop 4 rollbackScript)
       = ((True, None), drop 5 rollbackScript)
   \<and> Unmount (scripted ''/p'') ''/pods/v'' 0 (drop 5 rollbackScript) = (None, drop 6 rollbackScript)
   \<and> IsMountPoint (scripted ''/p'') ''/pods/v'' (drop 6 rollbackScript)
       = ((False, None), drop 7 rollbackScript)
   \<and> fst (SetUpAt (scripted ''/p'') builder ''/pods/v'' (start rollbackScript))
       = Some (OtherError ''mount failed'')
   \<and> calls (snd (SetUpAt (scripted ''/p'') builder ''/pods/v'' (start rollbackScript))) =
       [CallIsMountPoint ''/pods/v'', CallAttachAndMountDisk builder globalPath,
        CallMkdirAll ''/pods/v'' 488, CallMount globalPath ''/pods/v'' [] {FlagBind} [],
        CallIsMountPoint ''/pods/v'', CallUnmount ''/pods/v'' 0, CallIsMountPoint ''/pods/v'',
        CallRemove ''/pods/v'', CallDetachDisk builder]
   \<and> IsMountPoint (scripted ''/p'') ''/pods/v'' (drop 6 stubbornScript) = ((True, None), [])
   \<and> fst (SetUpAt (scripted ''/p'') builder ''/pods/v'' (start stubbornScript))
       = Some (OtherError ''mount failed'')
   \<and> calls (snd (SetUpAt (scripted ''/p'') builder ''/pods/v'' (start stubbornScript))) =
       [CallIsMountPoint ''/pods/v'', CallAttachAndMountDisk builder globalPath,
        CallMkdirAll ''/pods/v'' 488, CallMount globalPath ''/pods/v'' [] {FlagBind} [],
        CallIsMountPoint ''/pods/v'', CallUnmount ''/pods/v'' 0, CallIsMountPoint ''/pods/v'']"
proof -
  let ?g = "makeGlobalPDName (GetPluginDir (scripted ''/p'') awsPersistentDiskPluginName) (pdName builder)"
  let ?fl = "{FlagBind} \<union> (if readOnly builder then {FlagReadOnly} else {})"
  have ro: "readOnly builder = False"
    by (simp add: builder_def)
  have a1: "IsMountPoint (scripted ''/p'') ''/pods/v'' rollbackScript = ((False, None), drop 1 rollbackScript)"
    by code_simp
  have a2: "\<not> otherThanNotExist None"
    by (simp add: otherThanNotExist_def)
  have a3: "AttachAndMountDisk (scripted ''/p'') builder ?g (drop 1 rollbackScript)
       = (None, drop 2 rollbackScript)"
    by code_simp
  have a4: "MkdirAll (scripted ''/p'') ''/pods/v'' 488 (drop 2 rollbackScript) = (None, drop 3 rollbackScript)"
    by code_simp
  have a5: "Mount (scripted ''/p'') ?g ''/pods/v'' [] ?fl [] (drop 3 rollbackScript)
       = (Some (OtherError ''mount failed''), drop 4 rollbackScript)"
    by code_simp
  have a6: "IsMountPoint (scripted ''/p'') ''/pods/v'' (drop 4 rollbackScript)
       = ((True, None), drop 5 rollbackScript)"
    by code_simp
  have a7: "Unmount (scripted ''/p'') ''/pods/v'' 0 (drop 5 rollbackScript) = (None, drop 6 rollbackScript)"
    by code_simp
  have a8: "IsMountPoint (scripted ''/p'') ''/pods/v'' (drop 6 rollbackScript)
       = ((False, None), drop 7 rollbackScript)"
    by code_simp
  have b1: "IsMountPoint (scripted ''/p'') ''/pods/v'' stubbornScript = ((False, None), drop 1 stubbornScript)"
    by code_simp
  have b3: "AttachAndMountDisk (scripted ''/p'') builder ?g (drop 1 stubbornScript)
       = (None, drop 2 stubbornScript)"
    by code_simp
  have b4: "MkdirAll (scripted ''/p'') ''/pods/v'' 488 (drop 2 stubbornScript) = (None, drop 3 stubbornScript)"
    by code_simp
  have b5: "Mount (scripted ''/p'') ?g ''/pods/v'' [] ?fl [] (drop 3 stubbornScript)
       = (Some (OtherError ''mount failed''), drop 4 stubbornScript)"
    by code_simp
  have b6: "IsMountPoint (scripted ''/p'') ''/pods/v'' (drop 4 stubbornScript)
       = ((True, None), drop 5 stubbornScript)"
    by code_simp
  have b7: "Unmount (scripted ''/p'') ''/pods/v'' 0 (drop 5 stubbornScript) = (None, drop 6 stubbornScript)"
    by code_simp
  have b8: "IsMountPoint (scripted ''/p'') ''/pods/v'' (drop 6 stubbornScript) = ((True, None), [])"
    by code_simp
  note r1 = SetUpAt_bind_rollback [OF a1 a2 a3 a4 a5 a6 a7 a8]
  note r2 = SetUpAt_bind_rollback [OF b1 a2 b3 b4 b5 b6 b7 b8]
  show ?thesis
    using a1 a2 a3 a4 a5 a6 a7 a8 b8 r1 r2 ro
    by (simp add: globalPath_def)
qed

text \<open>
  C5 as stated fails: when the unmount fails, the call returns the error of the bind
  mount without removing the directory and without a detach.
\<close>

theorem SetUpAt_bind_rollback_counterexample:
  "SetUpAt (scripted ''/p'') builder ''/pods/v'' (start unmountFailScript) =
     (Some (OtherError ''mount failed''),
      \<lparr>world = [],
       calls = [CallIsMountPoint ''/pods/v'',
                CallAttachAndMountDisk builder ''/p/mounts/aws/us-east-1a/vol-1'',
                CallMkdirAll ''/pods/v'' 488,
                CallMount ''/p/mounts/aws/us-east-1a/vol-1'' ''/pods/v'' [] {FlagBind} [],
                CallIsMountPoint ''/pods/v'', CallUnmount ''/pods/v'' 0],
       logs = [VInfof 4 ''PersistentDisk set up: %s %v %v'' [S ''/pods/v'', B False, E None],
               Errorf ''Failed to unmount: %v'' [E (Some (OtherError ''device is busy''))]]\<rparr>)
   \<and> filter isRemove (calls (snd (SetUpAt (scripted ''/p'') builder ''/pods/v''
         (start unmountFailScript)))) = []
   \<and> filter isDetachDisk (calls (snd (SetUpAt (scripted ''/p'') builder ''/pods/v''
         (start unmountFailScript)))) = []"
  by code_simp

text \<open>
  C7. When the attach succeeds and the creation of the directory fails, \<open>SetUpAt\<close>
  returns the error of the creation; \<open>DetachDisk\<close> is called once, and its error, if
  any, goes to the log and nowhere else.
\<close>

theorem SetUpAt_mkdir_error:
  assumes "IsMountPoint sys dir w = ((False, e0), w1)"
      and "\<not> otherThanNotExist e0"
      and "AttachAndMountDisk sys pd
             (makeGlobalPDName (GetPluginDir sys awsPersistentDiskPluginName) (pdName pd)) w1 = (None, w2)"
      and "MkdirAll sys dir 488 w2 = (Some e, w3)"
      and "DetachDisk sys pd w3 = (derr, w4)"
  shows "SetUpAt sys pd dir (start w) =
           (Some e,
            \<lparr>world = w4,
             calls = [CallIsMountPoint dir,
                      CallAttachAndMountDisk pd
                        (makeGlobalPDName (GetPluginDir sys awsPersistentDiskPluginName) (pdName pd)),
                      CallMkdirAll dir 488, CallDetachDisk pd],
             logs = VInfof 4 ''PersistentDisk set up: %s %v %v'' [S dir, B False, E e0]
                    # (if derr = None then []
                       else [Warningf ''Failed to detach disk: %v (%v)'' [PD pd, E derr]])\<rparr>)"
  using assms by (simp add: setup_simps detachDiskLogError_def)

theorem SetUpAt_mkdir_error_witness:
  "IsMountPoint (scripted ''/p'') ''/pods/v'' mkdirFailScript
     = ((False, Some (NotExist ''/pods/v'')), drop 1 mkdirFailScript)
   \<and> \<not> otherThanNotExist (Some (NotExist ''/pods/v''))
   \<and> AttachAndMountDisk (scripted ''/p'') builder globalPath (drop 1 mkdirFailScript)
       = (None, drop 2 mkdirFailScript)
   \<and> MkdirAll (scripted ''/p'') ''/pods/v'' 488 (drop 2 mkdirFailScript)
       = (Some (OtherError ''permission denied''), drop 3 mkdirFailScript)
   \<and> DetachDisk (scripted ''/p'') builder (drop 3 mkdirFailScript)
       = (Some (OtherError ''detach failed''), [])
   \<and> SetUpAt (scripted ''/p'') builder ''/pods/v'' (start mkdirFailScript) =
       (Some (OtherError ''permission denied''),
        \<lparr>world = [],
         calls = [CallIsMountPoint ''/pods/v'', CallAttachAndMountDisk builder globalPath,
                  CallMkdirAll ''/pods/v'' 488, CallDetachDisk builder],
         logs = [VInfof 4 ''PersistentDisk set up: %s %v %v''
                   [S ''/pods/v'', B False, E (Some (NotExist ''/pods/v''))],
                 Warningf ''Failed to detach disk: %v (%v)''
                   [PD builder, E (Some (OtherError ''detach failed''))]]\<rparr>)"
proof -
  have h1: "IsMountPoint (scripted ''/p'') ''/pods/v'' mkdirFailScript
     = ((False, Some (NotExist ''/pods/v'')), drop 1 mkdirFailScript)"
    by code_simp
  have h2: "\<not> otherThanNotExist (Some (NotExist ''/pods/v''))"
    by (simp add: otherThanNotExist_def)
  have h3: "AttachAndMountDisk (scripted ''/p'') builder
              (makeGlobalPDName (GetPluginDir (scripted ''/p'') awsPersistentDiskPluginName) (pdName builder))
              (drop 1 mkdirFailScript) = (None, drop 2 mkdirFailScript)"
    by code_simp
  have h4: "MkdirAll (scripted ''/p'') ''/pods/v'' 488 (drop 2 mkdirFailScript)
       = (Some (OtherError ''permission denied''), drop 3 mkdirFailScript)"
    by code_simp
  have h5: "DetachDisk (scripted ''/p'') builder (drop 3 mkdirFailScript)
       = (Some (OtherError ''detach failed''), [])"
    by code_simp
  show ?thesis
    using h1 h2 h3 h4 h5 SetUpAt_mkdir_error [OF h1 h2 h3 h4 h5]
    by (simp add: globalPath_def)
qed

end
